theory Spec2Isabelle
  imports Complex_Main "HOL-Library.Sublist" "HOL-Library.Log_Nat"
begin

section \<open>Data model (src/models/Invoice.js, src/models/BillingSettings.js)\<close>

text \<open>
  A JavaScript Number that holds money is the rational value of a finite double. The
  sums, products and quotients of the totals computation are double operations, rounded
  by \<open>rnd\<close> below; the payment state is derived by comparisons, which are exact on
  doubles, and by one difference, which is written as the difference of the two stored
  values. A value that \<open>parseFloat\<close> maps to NaN is the constructor \<open>JOther\<close> of
  \<open>jsval\<close>. ObjectIds are natural numbers, dates are milliseconds since the epoch,
  \<open>undefined\<close> fields are \<open>None\<close>. The free-text \<open>notes\<close> field, which no
  validator and no branch reads, is left out.
\<close>

type_synonym money = rat
type_synonym objectId = nat
type_synonym date = int

datatype paymentStatusT = Paid | Partial | Unpaid

datatype customerTypeT = Registered | WalkIn

record invoiceItem =
  description :: string
  quantity :: money
  unitPrice :: money
  amount :: money
  hsn :: "string option"
  gstRate :: money

record walkInCustomerT =
  wname :: "string option"
  contactNumber :: "string option"
  email :: "string option"
  address :: "string option"

record invoice =
  inv_id :: objectId
  invoiceNumber :: string
  invoiceDate :: date
  dueDate :: "date option"
  customerType :: customerTypeT
  patient :: "objectId option"
  walkInCustomer :: walkInCustomerT
  doctor :: "objectId option"
  appointment :: "objectId option"
  prescription :: "objectId option"
  labTest :: "objectId option"
  invoiceType :: string
  items :: "invoiceItem list"
  subtotal :: money
  gstNumber :: string
  gstPercentage :: money
  gstAmount :: money
  totalAmount :: money
  paidAmount :: money
  balanceDue :: money
  paymentMethod :: string
  paymentStatus :: paymentStatusT
  paymentDate :: "date option"
  createdBy :: "objectId option"
  hospital :: "objectId option"

record consultationFeesT =
  standard :: money
  followUp :: money
  specialist :: money
  emergency :: money

record billingSettings =
  bs_hospital :: "objectId option"
  consultationFees :: consultationFeesT
  bs_gstNumber :: string
  bs_gstPercentage :: money
  invoicePrefix :: "string option"
  updatedBy :: "objectId option"

text \<open>
  An appointment as the consultation handler reads it: its id and the populated patient
  and doctor references (the \<open>_id\<close> of the referenced document, or null when that
  document is gone).
\<close>

record appointmentT =
  appt_id :: objectId
  appt_patient :: "objectId option"
  appt_doctor :: "objectId option"

text \<open>
  \<open>req.user\<close> as the controllers read it: billingController reads \<open>userId\<close> and
  \<open>hospitalId\<close>, walkInController reads \<open>hospital\<close>.
\<close>

record reqUser =
  userId :: objectId
  hospitalId :: objectId
  user_hospital :: "objectId option"

text \<open>
  The collections the billing controllers read and write. \<open>nextObjectId\<close> is the
  source of fresh \<open>_id\<close> values.
\<close>

record db =
  invoices :: "invoice list"
  patients :: "objectId list"
  doctors :: "objectId list"
  hospitals :: "objectId list"
  appointments :: "appointmentT list"
  settings :: "billingSettings list"
  nextObjectId :: objectId

text \<open>What a reading of \<open>new Date()\<close> gives: the instant, \<open>getFullYear()\<close>, \<open>getMonth()\<close>.\<close>

record clock =
  nowMs :: date
  fullYear :: nat
  month0 :: nat

datatype jsval = JUndefined | JNum money | JOther

text \<open>The result object of getBillingStatistics; grouped results are association lists.\<close>

record summaryT =
  totalInvoices :: nat
  sum_totalAmount :: money
  sum_paidAmount :: money
  pendingAmount :: money

record statisticsT =
  periodName :: string
  startDate :: date
  endDate :: date
  summary :: summaryT
  byType :: "(string \<times> summaryT) list"
  byStatus :: "(paymentStatusT \<times> nat \<times> money) list"
  byPaymentMethod :: "(string \<times> nat \<times> money) list"

datatype error =
  AppError string nat
  | ValidationError string
  | DuplicateKey string
  | CastError string
  | TypeError string
  | ReferenceError string

datatype body =
  BodyUndefined
  | BodyInvoice string invoice
  | BodyConflict string objectId
  | BodyNotFound string
  | BodyStatistics statisticsT

datatype outcome = Sent nat body | Next error

section \<open>Invoice model: validators, pre-save hook, save\<close>

definition paymentMethodEnum :: "string list" where
  "paymentMethodEnum = [''Cash'', ''UPI'', ''Card'', ''Insurance'', ''Other'']"

definition invoiceTypeEnum :: "string list" where
  "invoiceTypeEnum = [''consultation'', ''laboratory'', ''pharmacy'']"

text \<open>invoiceItemSchema: description required, quantity min 1, unitPrice min 0.\<close>

definition validItem :: "invoiceItem \<Rightarrow> bool" where
  "validItem it = (description it \<noteq> [] \<and> 1 \<le> quantity it \<and> 0 \<le> unitPrice it)"

text \<open>
  invoiceSchema's validators, in the order of the schema; the first failure is reported.
\<close>

definition validateInvoice :: "invoice \<Rightarrow> error option" where
  "validateInvoice iv =
    (if invoiceNumber iv = [] then Some (ValidationError ''Invoice number is required'')
     else if customerType iv = Registered \<and> patient iv = None
       then Some (ValidationError ''patient is required'')
     else if customerType iv = WalkIn \<and> (wname (walkInCustomer iv) = None \<or> wname (walkInCustomer iv) = Some [])
       then Some (ValidationError ''walkInCustomer.name is required'')
     else if invoiceType iv \<notin> set invoiceTypeEnum
       then Some (ValidationError ''Invoice type is required'')
     else if \<not> list_all validItem (items iv)
       then Some (ValidationError ''invalid item'')
     else if subtotal iv < 0 then Some (ValidationError ''Subtotal cannot be negative'')
     else if totalAmount iv < 0 then Some (ValidationError ''Total amount cannot be negative'')
     else if paidAmount iv < 0 then Some (ValidationError ''Paid amount cannot be negative'')
     else if paymentMethod iv \<notin> set paymentMethodEnum
       then Some (ValidationError ''paymentMethod is not a valid enum value'')
     else if createdBy iv = None then Some (ValidationError ''Created by is required'')
     else if hospital iv = None then Some (ValidationError ''Hospital is required'')
     else None)"

text \<open>
  invoiceSchema.pre('save'): balanceDue and paymentStatus are recomputed;
  \<open>this.paymentDate || new Date()\<close> keeps a date that is already set.
\<close>

definition preSave :: "date \<Rightarrow> invoice \<Rightarrow> invoice" where
  "preSave now iv =
    (let inv1 = iv\<lparr>balanceDue := totalAmount iv - paidAmount iv\<rparr> in
     if paidAmount inv1 \<le> 0 then inv1\<lparr>paymentStatus := Unpaid\<rparr>
     else if paidAmount inv1 < totalAmount inv1 then inv1\<lparr>paymentStatus := Partial\<rparr>
     else inv1\<lparr>paymentStatus := Paid,
               paymentDate := (case paymentDate inv1 of Some d \<Rightarrow> Some d | None \<Rightarrow> Some now)\<rparr>)"

text \<open>
  \<open>doc.save()\<close>: validation, then the pre-save hook, then the write. A new document is
  inserted (the unique index on invoiceNumber rejects a duplicate); a loaded one replaces
  the stored document with its \<open>_id\<close>.
\<close>

definition saveNew :: "date \<Rightarrow> invoice \<Rightarrow> db \<Rightarrow> error + (invoice \<times> db)" where
  "saveNew now iv d =
    (case validateInvoice iv of
       Some e \<Rightarrow> Inl e
     | None \<Rightarrow>
        (let iv' = preSave now iv in
         if invoiceNumber iv' \<in> set (map invoiceNumber (invoices d))
         then Inl (DuplicateKey ''invoiceNumber'')
         else Inr (iv', d\<lparr>invoices := invoices d @ [iv'],
                           nextObjectId := Suc (nextObjectId d)\<rparr>)))"

fun replaceById :: "invoice \<Rightarrow> invoice list \<Rightarrow> invoice list" where
  "replaceById iv [] = []"
| "replaceById iv (x # xs) =
    (if inv_id x = inv_id iv then iv # xs else x # replaceById iv xs)"

definition saveExisting :: "date \<Rightarrow> invoice \<Rightarrow> db \<Rightarrow> error + (invoice \<times> db)" where
  "saveExisting now iv d =
    (case validateInvoice iv of
       Some e \<Rightarrow> Inl e
     | None \<Rightarrow>
        (let iv' = preSave now iv in
         Inr (iv', d\<lparr>invoices := replaceById iv' (invoices d)\<rparr>)))"

text \<open>\<open>Invoice.findById(id)\<close> and \<open>findOne(filter)\<close>: the first matching document.\<close>

definition findOne :: "('a \<Rightarrow> bool) \<Rightarrow> 'a list \<Rightarrow> 'a option" where
  "findOne P xs = (case filter P xs of [] \<Rightarrow> None | x # _ \<Rightarrow> Some x)"

definition parseFloat :: "jsval \<Rightarrow> money option" where
  "parseFloat v = (case v of JNum x \<Rightarrow> Some x | _ \<Rightarrow> None)"

section \<open>Payment update (billingController.updateInvoicePayment)\<close>

record paymentReq =
  p_paidAmount :: jsval
  p_paymentMethod :: "string option"
  p_paymentDate :: "date option"

text \<open>
  The assignments the handler makes on the loaded document before it saves it: the
  fields of the request that are present, then balanceDue, paymentStatus and
  paymentDate. An empty paymentMethod string is falsy.
\<close>

definition applyPayment :: "date \<Rightarrow> paymentReq \<Rightarrow> invoice \<Rightarrow> invoice" where
  "applyPayment now rq iv0 =
    (let iv1 = (case parseFloat (p_paidAmount rq) of
                  Some v \<Rightarrow> iv0\<lparr>paidAmount := v\<rparr> | None \<Rightarrow> iv0);
         iv2 = (case p_paymentMethod rq of
                  Some m \<Rightarrow> (if m = [] then iv1 else iv1\<lparr>paymentMethod := m\<rparr>)
                | None \<Rightarrow> iv1);
         iv3 = (case p_paymentDate rq of
                  Some t \<Rightarrow> iv2\<lparr>paymentDate := Some t\<rparr> | None \<Rightarrow> iv2);
         iv4 = iv3\<lparr>balanceDue := totalAmount iv3 - paidAmount iv3\<rparr>
     in if paidAmount iv4 \<le> 0 then iv4\<lparr>paymentStatus := Unpaid\<rparr>
        else if paidAmount iv4 < totalAmount iv4 then iv4\<lparr>paymentStatus := Partial\<rparr>
        else iv4\<lparr>paymentStatus := Paid,
                  paymentDate := (case paymentDate iv4 of
                                    Some t \<Rightarrow> Some t | None \<Rightarrow> Some now)\<rparr>)"

text \<open>
  A paidAmount that is present and parses to NaN is refused by the Number cast of the
  schema, so the save fails and nothing is written.
\<close>

definition updateInvoicePayment :: "date \<Rightarrow> objectId \<Rightarrow> paymentReq \<Rightarrow> db \<Rightarrow> outcome \<times> db" where
  "updateInvoicePayment now ident rq d =
    (case findOne (\<lambda>i. inv_id i = ident) (invoices d) of
       None \<Rightarrow> (Next (AppError ''Invoice not found'' 404), d)
     | Some iv0 \<Rightarrow>
        (if p_paidAmount rq \<noteq> JUndefined \<and> parseFloat (p_paidAmount rq) = None
         then (Next (CastError ''paidAmount''), d)
         else (case saveExisting now (applyPayment now rq iv0) d of
                 Inl e \<Rightarrow> (Next e, d)
               | Inr (iv', d') \<Rightarrow>
                   (Sent 200 (BodyInvoice ''Invoice payment updated successfully'' iv'), d'))))"

section \<open>Invoice numbering (Invoice.generateInvoiceNumber)\<close>

text \<open>
  \<open>Number.prototype.toString()\<close> on a non-negative integer, \<open>padStart\<close> and
  \<open>slice(-2)\<close> on strings.
\<close>

definition digitChar :: "nat \<Rightarrow> char" where
  "digitChar k = ''0123456789'' ! k"

fun toStringNat :: "nat \<Rightarrow> string" where
  "toStringNat n =
    (if n < 10 then [digitChar n] else toStringNat (n div 10) @ [digitChar (n mod 10)])"

declare toStringNat.simps [simp del]

definition padStart :: "nat \<Rightarrow> char \<Rightarrow> string \<Rightarrow> string" where
  "padStart n c s = replicate (n - length s) c @ s"

definition sliceLast2 :: "string \<Rightarrow> string" where
  "sliceLast2 s = drop (length s - 2) s"

text \<open>
  The count is over every invoice of the hospital, whatever its prefix or month.
  \<open>prefix = 'INV'\<close> is the default of a missing argument.
\<close>

definition generateInvoiceNumber :: "clock \<Rightarrow> string option \<Rightarrow> objectId \<Rightarrow> invoice list \<Rightarrow> string" where
  "generateInvoiceNumber clk pfx hid invs =
    (let p = (case pfx of None \<Rightarrow> ''INV'' | Some q \<Rightarrow> q);
         count = length (filter (\<lambda>i. hospital i = Some hid) invs);
         currentYear = sliceLast2 (toStringNat (fullYear clk));
         currentMonth = padStart 2 (CHR ''0'') (toStringNat (month0 clk + 1))
     in p @ ''-'' @ currentYear @ currentMonth @ ''-''
          @ padStart 4 (CHR ''0'') (toStringNat (count + 1)))"

text \<open>The value a string of decimal digits denotes; used to state what the counter is.\<close>

definition digitVal :: "char \<Rightarrow> nat" where
  "digitVal c = (of_char c :: nat) - 48"

definition decimalValue :: "string \<Rightarrow> nat" where
  "decimalValue s = foldl (\<lambda>acc c. 10 * acc + digitVal c) 0 s"

section \<open>Double arithmetic\<close>

text \<open>
  IEEE 754 binary64 with round-to-nearest, ties to even, on the rational values of
  finite doubles: a value is rounded to a multiple of the quantum \<open>2 powi e\<close>, where
  \<open>e\<close> is 52 below the binary exponent of the value and at least -1074 (the
  subnormal range). Overflow to Infinity is outside the model. \<open>flog2 y\<close> is the
  binary exponent of a positive \<open>y\<close>, found from the bit lengths of its numerator
  and denominator.
\<close>

definition roundEven :: "rat \<Rightarrow> int" where
  "roundEven z =
    (let f = \<lfloor>z\<rfloor>; r = z - of_int f
     in if r < 1 / 2 then f else if 1 / 2 < r then f + 1 else if even f then f else f + 1)"

definition flog2 :: "rat \<Rightarrow> int" where
  "flog2 y =
    (let p0 = bitlen (fst (quotient_of y)) - bitlen (snd (quotient_of y))
     in if 2 powi p0 \<le> y then p0 else p0 - 1)"

definition rnd :: "rat \<Rightarrow> rat" where
  "rnd x =
    (if x = 0 then 0
     else (let y = \<bar>x\<bar>;
               e = max (flog2 y - 52) (- 1074);
               m = roundEven (y / 2 powi e)
           in sgn x * (of_int m * 2 powi e)))"

text \<open>The operators \<open>+\<close>, \<open>*\<close> and \<open>/\<close> on Numbers, and what a double is.\<close>

definition fadd :: "money \<Rightarrow> money \<Rightarrow> money" where
  "fadd a b = rnd (a + b)"

definition fmul :: "money \<Rightarrow> money \<Rightarrow> money" where
  "fmul a b = rnd (a * b)"

definition fdiv :: "money \<Rightarrow> money \<Rightarrow> money" where
  "fdiv a b = rnd (a / b)"

definition isDouble :: "money \<Rightarrow> bool" where
  "isDouble x = (rnd x = x)"

text \<open>
  The smallest positive double (\<open>Number.MIN_VALUE\<close>). A left-to-right sum from
  \<open>s\<close> whose exact partial sums are all doubles, and a sum of integers whose partial
  sums all stay below \<open>2 ^ 53\<close> in absolute value.
\<close>

definition MIN_VALUE :: rat where
  "MIN_VALUE = 2 powi (- 1074)"

fun exactRun :: "money \<Rightarrow> money list \<Rightarrow> bool" where
  "exactRun s [] = True"
| "exactRun s (a # as) = (isDouble (s + a) \<and> exactRun (s + a) as)"

fun wholeRun :: "int \<Rightarrow> int list \<Rightarrow> bool" where
  "wholeRun s [] = True"
| "wholeRun s (n # ns) = (\<bar>s + n\<bar> < 2 ^ 53 \<and> wholeRun (s + n) ns)"

section \<open>Invoice creation (billingController.createInvoice)\<close>

record reqItem =
  ri_description :: string
  ri_quantity :: money
  ri_unitPrice :: money
  ri_amount :: "money option"
  ri_hsn :: "string option"
  ri_gstRate :: "money option"

record invoiceReq =
  r_patientId :: "objectId option"
  r_doctorId :: "objectId option"
  r_appointmentId :: "objectId option"
  r_prescriptionId :: "objectId option"
  r_labTestId :: "objectId option"
  r_invoiceType :: "string option"
  r_items :: "reqItem list option"
  r_paymentMethod :: "string option"
  r_paidAmount :: jsval
  r_dueDate :: "date option"

text \<open>
  \<open>item.amount || (item.quantity * item.unitPrice)\<close>: a missing amount and an amount of
  0 are both falsy.
\<close>

definition processItem :: "reqItem \<Rightarrow> invoiceItem" where
  "processItem it =
    \<lparr>description = ri_description it,
     quantity = ri_quantity it,
     unitPrice = ri_unitPrice it,
     amount = (case ri_amount it of
                 Some a \<Rightarrow> (if a = 0 then fmul (ri_quantity it) (ri_unitPrice it) else a)
               | None \<Rightarrow> fmul (ri_quantity it) (ri_unitPrice it)),
     hsn = ri_hsn it,
     gstRate = (case ri_gstRate it of Some g \<Rightarrow> g | None \<Rightarrow> 0)\<rparr>"

definition calculateTotals :: "reqItem list \<Rightarrow> money \<Rightarrow> invoiceItem list \<times> money \<times> money \<times> money" where
  "calculateTotals its gstPct =
    (let processedItems = map processItem its;
         sub = foldl (\<lambda>sum it. fadd sum (amount it)) 0 processedItems;
         gstAmt = fdiv (fmul sub gstPct) 100;
         total = fadd sub gstAmt
     in (processedItems, sub, gstAmt, total))"

text \<open>
  The totals of the walk-in controllers (createPharmacyInvoice, createLaboratoryInvoice)
  over their prepared invoice items: the same three lines.
\<close>

definition walkInTotals :: "invoiceItem list \<Rightarrow> money \<Rightarrow> money \<times> money \<times> money" where
  "walkInTotals invoiceItems gstPct =
    (let sub = foldl (\<lambda>total it. fadd total (amount it)) 0 invoiceItems;
         gstAmt = fdiv (fmul sub gstPct) 100;
         total = fadd sub gstAmt
     in (sub, gstAmt, total))"

definition defaultSettings :: "objectId \<Rightarrow> objectId \<Rightarrow> billingSettings" where
  "defaultSettings hid uid =
    \<lparr>bs_hospital = Some hid,
     consultationFees = \<lparr>standard = 500, followUp = 300, specialist = 1000, emergency = 1500\<rparr>,
     bs_gstNumber = ''29AADCB2230M1ZP'',
     bs_gstPercentage = 18,
     invoicePrefix = Some ''INV'',
     updatedBy = Some uid\<rparr>"

text \<open>\<open>BillingSettings.findOne({hospital}) || BillingSettings.create({hospital, updatedBy})\<close>.\<close>

definition resolveSettings :: "objectId \<Rightarrow> objectId \<Rightarrow> db \<Rightarrow> billingSettings \<times> db" where
  "resolveSettings hid uid d =
    (case findOne (\<lambda>s. bs_hospital s = Some hid) (settings d) of
       Some s \<Rightarrow> (s, d)
     | None \<Rightarrow> (defaultSettings hid uid, d\<lparr>settings := settings d @ [defaultSettings hid uid]\<rparr>))"

definition truthyStr :: "string option \<Rightarrow> bool" where
  "truthyStr s = (case s of None \<Rightarrow> False | Some t \<Rightarrow> t \<noteq> [])"

text \<open>
  The document handed to \<open>new Invoice\<close>: the generated number, the totals, and the
  payment state the controller derives itself before the save.
\<close>

definition invoiceDoc :: "clock \<Rightarrow> reqUser \<Rightarrow> invoiceReq \<Rightarrow> billingSettings \<Rightarrow> db \<Rightarrow> invoice" where
  "invoiceDoc clk u rq bs d1 =
    (let number = generateInvoiceNumber clk (invoicePrefix bs) (hospitalId u) (invoices d1);
         (processedItems, sub, gstAmt, total) =
            calculateTotals (the (r_items rq)) (bs_gstPercentage bs);
         paidAmt = (case parseFloat (r_paidAmount rq) of Some v \<Rightarrow> v | None \<Rightarrow> 0);
         status = (if paidAmt = 0 then Unpaid else if paidAmt < total then Partial else Paid)
     in \<lparr>inv_id = nextObjectId d1,
         invoiceNumber = number,
         invoiceDate = nowMs clk,
         dueDate = r_dueDate rq,
         customerType = Registered,
         patient = r_patientId rq,
         walkInCustomer = \<lparr>wname = None, contactNumber = None, email = None, address = None\<rparr>,
         doctor = r_doctorId rq,
         appointment = r_appointmentId rq,
         prescription = r_prescriptionId rq,
         labTest = r_labTestId rq,
         invoiceType = the (r_invoiceType rq),
         items = processedItems,
         subtotal = sub,
         gstNumber = bs_gstNumber bs,
         gstPercentage = bs_gstPercentage bs,
         gstAmount = gstAmt,
         totalAmount = total,
         paidAmount = paidAmt,
         balanceDue = total - paidAmt,
         paymentMethod = (case r_paymentMethod rq of None \<Rightarrow> ''Cash'' | Some m \<Rightarrow> m),
         paymentStatus = status,
         paymentDate = (if status = Paid then Some (nowMs clk) else None),
         createdBy = Some (userId u),
         hospital = Some (hospitalId u)\<rparr>)"

text \<open>
  The handler: required fields, the three lookups, the settings (created when absent),
  then the document and its save. \<open>the\<close> is applied only where the first check has
  shown the field present.
\<close>

definition createInvoice :: "clock \<Rightarrow> reqUser \<Rightarrow> invoiceReq \<Rightarrow> db \<Rightarrow> outcome \<times> db" where
  "createInvoice clk u rq d =
    (if r_patientId rq = None \<or> \<not> truthyStr (r_invoiceType rq)
        \<or> r_items rq = None \<or> r_items rq = Some []
     then (Next (AppError ''Missing required fields: patientId, invoiceType, and items are required'' 400), d)
     else if the (r_patientId rq) \<notin> set (patients d)
     then (Next (AppError ''Patient not found'' 404), d)
     else if (case r_doctorId rq of None \<Rightarrow> False | Some did \<Rightarrow> did \<notin> set (doctors d))
     then (Next (AppError ''Doctor not found'' 404), d)
     else if hospitalId u \<notin> set (hospitals d)
     then (Next (AppError ''Hospital not found'' 404), d)
     else
      (let (bs, d1) = resolveSettings (hospitalId u) (userId u) d
       in case saveNew (nowMs clk) (invoiceDoc clk u rq bs d1) d1 of
            Inl e \<Rightarrow> (Next e, d1)
          | Inr (iv', d2) \<Rightarrow> (Sent 201 (BodyInvoice ''Invoice created successfully'' iv'), d2)))"

section \<open>Consultation invoice (billingController.generateConsultationInvoice)\<close>

text \<open>\<open>toLowerCase\<close>, \<open>toUpperCase\<close> and \<open>String.prototype.includes\<close> on ASCII strings.\<close>

definition toLowerChar :: "char \<Rightarrow> char" where
  "toLowerChar c =
    (let n = (of_char c :: nat) in if 65 \<le> n \<and> n \<le> 90 then char_of (n + 32) else c)"

definition toUpperChar :: "char \<Rightarrow> char" where
  "toUpperChar c =
    (let n = (of_char c :: nat) in if 97 \<le> n \<and> n \<le> 122 then char_of (n - 32) else c)"

definition toLowerCase :: "string \<Rightarrow> string" where
  "toLowerCase s = map toLowerChar s"

fun includesStr :: "string \<Rightarrow> string \<Rightarrow> bool" where
  "includesStr [] t = (t = [])"
| "includesStr (c # cs) t = (prefix t (c # cs) \<or> includesStr cs t)"

definition capitalize :: "string \<Rightarrow> string" where
  "capitalize s = (case s of [] \<Rightarrow> [] | c # cs \<Rightarrow> toUpperChar c # cs)"

definition feeFor :: "consultationFeesT \<Rightarrow> string \<Rightarrow> money" where
  "feeFor fees apptType =
    (if includesStr apptType ''follow'' then followUp fees
     else if includesStr apptType ''specialist'' then specialist fees
     else if includesStr apptType ''emergency'' then emergency fees
     else standard fees)"

record consultReq =
  c_appointmentId :: "objectId option"
  c_paymentMethod :: "string option"
  c_paidAmount :: jsval

text \<open>
  Appointment.js declares \<open>type\<close>, not \<open>appointmentType\<close>, and Doctor.js declares
  neither \<open>firstName\<close> nor \<open>lastName\<close>: the handler's reads of these properties
  give \<open>undefined\<close> on every document. A template literal prints \<open>undefined\<close> as
  that word.
\<close>

definition appointmentType :: "appointmentT \<Rightarrow> string option" where
  "appointmentType appt = None"

definition firstName :: "objectId \<Rightarrow> string option" where
  "firstName doc = None"

definition lastName :: "objectId \<Rightarrow> string option" where
  "lastName doc = None"

definition templ :: "string option \<Rightarrow> string" where
  "templ v = (case v of None \<Rightarrow> ''undefined'' | Some t \<Rightarrow> t)"

text \<open>
  The appointment type the fee is chosen by:
  \<open>appointment.appointmentType?.toLowerCase() || 'standard'\<close>.
\<close>

definition apptTypeOf :: "appointmentT \<Rightarrow> string" where
  "apptTypeOf appt =
    (case appointmentType appt of
       None \<Rightarrow> ''standard''
     | Some t \<Rightarrow> (if t = [] then ''standard'' else toLowerCase t))"

text \<open>The one line item and the request body handed to createInvoice.\<close>

definition consultationInvoiceData ::
    "billingSettings \<Rightarrow> appointmentT \<Rightarrow> objectId \<Rightarrow> objectId \<Rightarrow> objectId \<Rightarrow> consultReq \<Rightarrow> invoiceReq" where
  "consultationInvoiceData bs appt doc pid aid rq =
    (let apptType = apptTypeOf appt;
         feeAmount = feeFor (consultationFees bs) apptType;
         its = [\<lparr>ri_description = capitalize apptType @ '' Consultation with ''
                    @ templ (firstName doc) @ '' '' @ templ (lastName doc),
                 ri_quantity = 1,
                 ri_unitPrice = feeAmount,
                 ri_amount = Some feeAmount,
                 ri_hsn = Some ''998331'',
                 ri_gstRate = Some (bs_gstPercentage bs)\<rparr>]
     in \<lparr>r_patientId = Some pid,
         r_doctorId = Some doc,
         r_appointmentId = Some aid,
         r_prescriptionId = None,
         r_labTestId = None,
         r_invoiceType = Some ''consultation'',
         r_items = Some its,
         r_paymentMethod =
           Some (if truthyStr (c_paymentMethod rq) then the (c_paymentMethod rq) else ''Cash''),
         r_paidAmount =
           JNum (case parseFloat (c_paidAmount rq) of Some v \<Rightarrow> v | None \<Rightarrow> 0),
         r_dueDate = None\<rparr>)"

text \<open>
  The nested call goes through the catchAsync wrapper of createInvoice, which returns
  nothing: \<open>await exports.createInvoice(...)\<close> does not wait for the creation, and
  the handler answers 201 with an undefined body while the creation is still pending.
  The nested call gets a \<open>next\<close> that does nothing and a response object whose
  result is dropped, so its outcome is never seen. The handler therefore returns its
  answer, the store at that moment, and the creation it has left pending;
  \<open>settlePending\<close> runs a pending creation, at the time it completes, as one step
  on the store. A populated reference that is null makes the property access throw a
  TypeError.
\<close>

record pendingCreate =
  pend_user :: reqUser
  pend_body :: invoiceReq

definition settlePending :: "clock \<Rightarrow> pendingCreate \<Rightarrow> db \<Rightarrow> db" where
  "settlePending clk p d = snd (createInvoice clk (pend_user p) (pend_body p) d)"

definition generateConsultationInvoice ::
    "clock \<Rightarrow> reqUser \<Rightarrow> consultReq \<Rightarrow> db \<Rightarrow> outcome \<times> db \<times> pendingCreate option" where
  "generateConsultationInvoice clk u rq d =
    (case c_appointmentId rq of
       None \<Rightarrow> (Next (AppError ''Appointment ID is required'' 400), d, None)
     | Some aid \<Rightarrow>
      (case findOne (\<lambda>a. appt_id a = aid) (appointments d) of
         None \<Rightarrow> (Next (AppError ''Appointment not found'' 404), d, None)
       | Some appt \<Rightarrow>
        (case findOne (\<lambda>i. appointment i = Some aid) (invoices d) of
           Some existingInvoice \<Rightarrow>
             (Sent 400 (BodyConflict ''Invoice already exists for this appointment''
                          (inv_id existingInvoice)), d, None)
         | None \<Rightarrow>
          (let (bs, d1) = resolveSettings (hospitalId u) (userId u) d
           in case appt_doctor appt of
                None \<Rightarrow> (Next (TypeError ''appointment.doctor is null''), d1, None)
              | Some doc \<Rightarrow>
               (case appt_patient appt of
                  None \<Rightarrow> (Next (TypeError ''appointment.patient is null''), d1, None)
                | Some pid \<Rightarrow>
                    (Sent 201 BodyUndefined, d1,
                     Some \<lparr>pend_user = u,
                            pend_body = consultationInvoiceData bs appt doc pid aid rq\<rparr>))))))"

section \<open>Walk-in invoice lookup (walkInController.getWalkInInvoiceById)\<close>

text \<open>
  \<open>Invoice.findOne({_id, hospital: req.user.hospital, customerType: 'walk-in'})\<close>; the
  success body carries the invoice and no message.
\<close>

definition getWalkInInvoiceById :: "reqUser \<Rightarrow> objectId \<Rightarrow> db \<Rightarrow> outcome" where
  "getWalkInInvoiceById u ident d =
    (case findOne (\<lambda>i. inv_id i = ident \<and> hospital i = user_hospital u
                        \<and> customerType i = WalkIn) (invoices d) of
       None \<Rightarrow> Sent 404 (BodyNotFound ''Invoice not found'')
     | Some iv \<Rightarrow> Sent 200 (BodyInvoice [] iv))"

section \<open>Statistics (billingController.getBillingStatistics)\<close>

record dateRange =
  range_start :: date
  range_end :: date

text \<open>What \<open>getDateRanges()\<close> returns at the time of the request.\<close>

record dateRangesT =
  today :: dateRange
  yesterday :: dateRange
  thisWeek :: dateRange
  thisMonth :: dateRange
  lastMonth :: dateRange
  thisYear :: dateRange

text \<open>\<open>dateRanges[period] || dateRanges.thisMonth\<close> on the six own keys of the object.\<close>

definition selectRange :: "dateRangesT \<Rightarrow> string \<Rightarrow> dateRange" where
  "selectRange rs period =
    (if period = ''today'' then today rs
     else if period = ''yesterday'' then yesterday rs
     else if period = ''thisWeek'' then thisWeek rs
     else if period = ''thisMonth'' then thisMonth rs
     else if period = ''lastMonth'' then lastMonth rs
     else if period = ''thisYear'' then thisYear rs
     else thisMonth rs)"

definition matchStage :: "objectId \<Rightarrow> dateRange \<Rightarrow> invoice list \<Rightarrow> invoice list" where
  "matchStage hid r invs =
    filter (\<lambda>i. hospital i = Some hid \<and> range_start r \<le> invoiceDate i
                 \<and> invoiceDate i \<le> range_end r) invs"

definition accumulate :: "invoice list \<Rightarrow> summaryT" where
  "accumulate xs =
    \<lparr>totalInvoices = length xs,
     sum_totalAmount = sum_list (map totalAmount xs),
     sum_paidAmount = sum_list (map paidAmount xs),
     pendingAmount = sum_list (map balanceDue xs)\<rparr>"

text \<open>A \<open>$group\<close> stage with \<open>_id: null\<close> yields no document on an empty input.\<close>

definition groupAll :: "invoice list \<Rightarrow> summaryT list" where
  "groupAll xs = (if xs = [] then [] else [accumulate xs])"

definition groupBy :: "(invoice \<Rightarrow> 'k) \<Rightarrow> invoice list \<Rightarrow> ('k \<times> invoice list) list" where
  "groupBy key xs = map (\<lambda>k. (k, filter (\<lambda>x. key x = k) xs)) (remdups (map key xs))"

definition zeroSummary :: summaryT where
  "zeroSummary = \<lparr>totalInvoices = 0, sum_totalAmount = 0, sum_paidAmount = 0, pendingAmount = 0\<rparr>"

definition buildStatistics :: "string \<Rightarrow> dateRange \<Rightarrow> invoice list \<Rightarrow> statisticsT" where
  "buildStatistics period r matched =
    \<lparr>periodName = period,
     startDate = range_start r,
     endDate = range_end r,
     summary = (case groupAll matched of s # _ \<Rightarrow> s | [] \<Rightarrow> zeroSummary),
     byType = map (\<lambda>(k, g). (k, accumulate g)) (groupBy invoiceType matched),
     byStatus = map (\<lambda>(k, g). (k, length g, sum_list (map totalAmount g)))
                  (groupBy paymentStatus matched),
     byPaymentMethod = map (\<lambda>(k, g). (k, length g, sum_list (map paidAmount g)))
                  (groupBy paymentMethod matched)\<rparr>"

text \<open>
  The identifiers bound at the top of billingController.js (its \<open>require\<close> lines and
  \<open>getDateRanges\<close>). The handler evaluates \<open>mongoose.Types.ObjectId(hospitalId)\<close>
  while it builds the match criteria; reading an identifier that is not bound throws a
  ReferenceError, which catchAsync passes to \<open>next\<close>.
\<close>

definition billingControllerScope :: "string list" where
  "billingControllerScope =
    [''Invoice'', ''BillingSettings'', ''Appointment'', ''Patient'', ''Doctor'',
     ''Prescription'', ''LabTest'', ''Hospital'', ''logger'', ''catchAsync'', ''AppError'',
     ''getDateRanges'']"

definition getBillingStatistics :: "dateRangesT \<Rightarrow> reqUser \<Rightarrow> string option \<Rightarrow> db \<Rightarrow> outcome" where
  "getBillingStatistics rs u periodQ d =
    (let period = (case periodQ of None \<Rightarrow> ''thisMonth'' | Some p \<Rightarrow> p);
         selectedRange = selectRange rs period
     in if ''mongoose'' \<notin> set billingControllerScope
        then Next (ReferenceError ''mongoose is not defined'')
        else Sent 200 (BodyStatistics
               (buildStatistics period selectedRange
                  (matchStage (hospitalId u) selectedRange (invoices d)))))"

section \<open>Concrete stores and requests\<close>

definition exClock :: clock where
  "exClock = \<lparr>nowMs = 1770000000000, fullYear = 2026, month0 = 1\<rparr>"

definition exUser :: reqUser where
  "exUser = \<lparr>userId = 7, hospitalId = 10, user_hospital = Some 10\<rparr>"

definition exDb :: db where
  "exDb = \<lparr>invoices = [], patients = [1], doctors = [2], hospitals = [10],
           appointments = [\<lparr>appt_id = 100, appt_patient = Some 1, appt_doctor = Some 2\<rparr>],
           settings = [], nextObjectId = 1000\<rparr>"

text \<open>
  A manual invoice of two items at 18 percent tax with 1000 paid at creation, and the
  invoice of a free visit (one item of unit price 0).
\<close>

definition scenarioReq :: invoiceReq where
  "scenarioReq = \<lparr>r_patientId = Some 1, r_doctorId = Some 2, r_appointmentId = None,
     r_prescriptionId = None, r_labTestId = None, r_invoiceType = Some ''consultation'',
     r_items = Some [\<lparr>ri_description = ''Procedure'', ri_quantity = 2, ri_unitPrice = 500,
                      ri_amount = None, ri_hsn = None, ri_gstRate = None\<rparr>,
                     \<lparr>ri_description = ''Review'', ri_quantity = 1, ri_unitPrice = 1000,
                      ri_amount = None, ri_hsn = None, ri_gstRate = None\<rparr>],
     r_paymentMethod = Some ''UPI'', r_paidAmount = JNum 1000, r_dueDate = None\<rparr>"

definition scenarioInvoice :: invoice where
  "scenarioInvoice =
    \<lparr>inv_id = 1000, invoiceNumber = ''INV-2602-0001'', invoiceDate = 1770000000000,
     dueDate = None, customerType = Registered, patient = Some 1,
     walkInCustomer = \<lparr>wname = None, contactNumber = None, email = None, address = None\<rparr>,
     doctor = Some 2, appointment = None, prescription = None, labTest = None,
     invoiceType = ''consultation'',
     items = [\<lparr>description = ''Procedure'', quantity = 2, unitPrice = 500, amount = 1000,
               hsn = None, gstRate = 0\<rparr>,
              \<lparr>description = ''Review'', quantity = 1, unitPrice = 1000, amount = 1000,
               hsn = None, gstRate = 0\<rparr>],
     subtotal = 2000, gstNumber = ''29AADCB2230M1ZP'', gstPercentage = 18, gstAmount = 360,
     totalAmount = 2360, paidAmount = 1000, balanceDue = 1360, paymentMethod = ''UPI'',
     paymentStatus = Partial, paymentDate = None, createdBy = Some 7, hospital = Some 10\<rparr>"



text \<open>The store after the two-item invoice is created, a full payment and a later payment of 0.\<close>

definition scenarioDb :: db where
  "scenarioDb = exDb\<lparr>invoices := [scenarioInvoice], settings := [defaultSettings 10 7],
                      nextObjectId := 1001\<rparr>"

definition paidScenarioInvoice :: invoice where
  "paidScenarioInvoice = scenarioInvoice\<lparr>paidAmount := 2360, balanceDue := 0,
      paymentMethod := ''Card'', paymentStatus := Paid, paymentDate := Some 1770000100000\<rparr>"

definition refundedInvoice :: invoice where
  "refundedInvoice = paidScenarioInvoice\<lparr>paidAmount := 0, balanceDue := 2360,
      paymentStatus := Unpaid\<rparr>"

definition payFullReq :: paymentReq where
  "payFullReq = \<lparr>p_paidAmount = JNum 2360, p_paymentMethod = Some ''Card'', p_paymentDate = None\<rparr>"

definition refundReq :: paymentReq where
  "refundReq = \<lparr>p_paidAmount = JNum 0, p_paymentMethod = None, p_paymentDate = None\<rparr>"


text \<open>
  The parts of an invoice number: two decimal digits of a number, the characters after
  \<open>{prefix}-{YY}{MM}-\<close>, and what a decimal digit is. A clock reading in March 2026.
\<close>

definition twoDigits :: "nat \<Rightarrow> string" where
  "twoDigits x = [digitChar (x div 10 mod 10), digitChar (x mod 10)]"

definition seqPart :: "string \<Rightarrow> string \<Rightarrow> string" where
  "seqPart p s = drop (length p + 6) s"

definition isDigit :: "char \<Rightarrow> bool" where
  "isDigit c = (c \<in> set ''0123456789'')"

definition marchClock :: clock where
  "marchClock = \<lparr>nowMs = 1772500000000, fullYear = 2026, month0 = 2\<rparr>"

text \<open>
  A store with a registered invoice and a walk-in invoice of hospital 10 and a walk-in
  invoice of hospital 11; a line item whose amount the caller has set to 0.
\<close>

definition walkInInvoice :: invoice where
  "walkInInvoice =
    \<lparr>inv_id = 2000, invoiceNumber = ''PH-2602-0002'', invoiceDate = 1770000300000,
     dueDate = Some 1770000300000, customerType = WalkIn, patient = None,
     walkInCustomer = \<lparr>wname = Some ''R. Iyer'', contactNumber = None, email = None,
                        address = None\<rparr>,
     doctor = None, appointment = None, prescription = None, labTest = None,
     invoiceType = ''pharmacy'',
     items = [\<lparr>description = ''Paracetamol'', quantity = 2, unitPrice = 50, amount = 100,
               hsn = Some ''30049099'', gstRate = 18\<rparr>],
     subtotal = 100, gstNumber = ''29AADCB2230M1ZP'', gstPercentage = 18, gstAmount = 18,
     totalAmount = 118, paidAmount = 118, balanceDue = 0, paymentMethod = ''Cash'',
     paymentStatus = Paid, paymentDate = Some 1770000300000, createdBy = Some 7,
     hospital = Some 10\<rparr>"

definition otherTenantInvoice :: invoice where
  "otherTenantInvoice = walkInInvoice\<lparr>inv_id := 2001, invoiceNumber := ''PH-2602-0001'',
      hospital := Some 11\<rparr>"

definition walkInDb :: db where
  "walkInDb = scenarioDb\<lparr>invoices := [scenarioInvoice, walkInInvoice, otherTenantInvoice],
      nextObjectId := 2002\<rparr>"

definition waivedItem :: reqItem where
  "waivedItem = \<lparr>ri_description = ''Dressing (waived)'', ri_quantity = 2, ri_unitPrice = 500,
      ri_amount = Some 0, ri_hsn = None, ri_gstRate = None\<rparr>"

text \<open>
  Two items whose amounts are the literals 0.1 and 0.2, that is, the doubles nearest to
  one tenth and one fifth.
\<close>

definition tenthItem :: reqItem where
  "tenthItem = \<lparr>ri_description = ''Swab'', ri_quantity = 1,
      ri_unitPrice = 3602879701896397 / 36028797018963968,
      ri_amount = Some (3602879701896397 / 36028797018963968), ri_hsn = None, ri_gstRate = None\<rparr>"

definition fifthItem :: reqItem where
  "fifthItem = \<lparr>ri_description = ''Gauze'', ri_quantity = 1,
      ri_unitPrice = 3602879701896397 / 18014398509481984,
      ri_amount = Some (3602879701896397 / 18014398509481984), ri_hsn = None, ri_gstRate = None\<rparr>"

text \<open>
  The first check of createInvoice passes; its three lookups succeed. Requests: a
  screening test of amount 0, a patient that does not exist, an item of negative amount.
\<close>

definition fieldsPresent :: "invoiceReq \<Rightarrow> bool" where
  "fieldsPresent rq =
    (r_patientId rq \<noteq> None \<and> truthyStr (r_invoiceType rq)
     \<and> r_items rq \<noteq> None \<and> r_items rq \<noteq> Some [])"

definition lookupsSucceed :: "reqUser \<Rightarrow> invoiceReq \<Rightarrow> db \<Rightarrow> bool" where
  "lookupsSucceed u rq d =
    (the (r_patientId rq) \<in> set (patients d)
     \<and> (case r_doctorId rq of None \<Rightarrow> True | Some did \<Rightarrow> did \<in> set (doctors d))
     \<and> hospitalId u \<in> set (hospitals d))"

text \<open>
  The amount an item supplies, if any, is a double; the item supplies a negative amount.
\<close>

definition suppliedDouble :: "reqItem \<Rightarrow> bool" where
  "suppliedDouble it = (case ri_amount it of Some a \<Rightarrow> isDouble a | None \<Rightarrow> True)"

definition suppliesNegative :: "reqItem \<Rightarrow> bool" where
  "suppliesNegative it = (case ri_amount it of Some a \<Rightarrow> a < 0 \<and> isDouble a | None \<Rightarrow> False)"

definition screeningReq :: invoiceReq where
  "screeningReq = \<lparr>r_patientId = Some 1, r_doctorId = None, r_appointmentId = None,
     r_prescriptionId = None, r_labTestId = None, r_invoiceType = Some ''laboratory'',
     r_items = Some [\<lparr>ri_description = ''Screening camp test'', ri_quantity = 1,
                      ri_unitPrice = 0, ri_amount = Some 0, ri_hsn = Some ''998341'',
                      ri_gstRate = Some 18\<rparr>],
     r_paymentMethod = Some ''Cash'', r_paidAmount = JNum 0, r_dueDate = None\<rparr>"

definition screeningInvoice :: invoice where
  "screeningInvoice =
    \<lparr>inv_id = 1000, invoiceNumber = ''INV-2602-0001'', invoiceDate = 1770000000000,
     dueDate = None, customerType = Registered, patient = Some 1,
     walkInCustomer = \<lparr>wname = None, contactNumber = None, email = None, address = None\<rparr>,
     doctor = None, appointment = None, prescription = None, labTest = None,
     invoiceType = ''laboratory'',
     items = [\<lparr>description = ''Screening camp test'', quantity = 1, unitPrice = 0, amount = 0,
               hsn = Some ''998341'', gstRate = 18\<rparr>],
     subtotal = 0, gstNumber = ''29AADCB2230M1ZP'', gstPercentage = 18, gstAmount = 0,
     totalAmount = 0, paidAmount = 0, balanceDue = 0, paymentMethod = ''Cash'',
     paymentStatus = Unpaid, paymentDate = None, createdBy = Some 7, hospital = Some 10\<rparr>"

definition unknownPatientReq :: invoiceReq where
  "unknownPatientReq = scenarioReq\<lparr>r_patientId := Some 99\<rparr>"

definition creditNoteReq :: invoiceReq where
  "creditNoteReq = scenarioReq\<lparr>r_items :=
     Some [\<lparr>ri_description = ''Refund'', ri_quantity = 1, ri_unitPrice = 0,
            ri_amount = Some (- 200), ri_hsn = None, ri_gstRate = None\<rparr>]\<rparr>"

text \<open>
  A consultation invoice request for appointment 100, the creation it leaves pending,
  the invoice that creation stores (standard fee 500) and the store after it; the date
  ranges of a day in February 2026.
\<close>

definition consultRq :: consultReq where
  "consultRq = \<lparr>c_appointmentId = Some 100, c_paymentMethod = None, c_paidAmount = JUndefined\<rparr>"

definition consultPending :: pendingCreate where
  "consultPending =
    \<lparr>pend_user = exUser,
     pend_body =
       \<lparr>r_patientId = Some 1, r_doctorId = Some 2, r_appointmentId = Some 100,
        r_prescriptionId = None, r_labTestId = None, r_invoiceType = Some ''consultation'',
        r_items = Some [\<lparr>ri_description = ''Standard Consultation with undefined undefined'',
                         ri_quantity = 1, ri_unitPrice = 500, ri_amount = Some 500,
                         ri_hsn = Some ''998331'', ri_gstRate = Some 18\<rparr>],
        r_paymentMethod = Some ''Cash'', r_paidAmount = JNum 0, r_dueDate = None\<rparr>\<rparr>"

definition consultInvoice :: invoice where
  "consultInvoice =
    \<lparr>inv_id = 1000, invoiceNumber = ''INV-2602-0001'', invoiceDate = 1770000000000,
     dueDate = None, customerType = Registered, patient = Some 1,
     walkInCustomer = \<lparr>wname = None, contactNumber = None, email = None, address = None\<rparr>,
     doctor = Some 2, appointment = Some 100, prescription = None, labTest = None,
     invoiceType = ''consultation'',
     items = [\<lparr>description = ''Standard Consultation with undefined undefined'', quantity = 1,
               unitPrice = 500, amount = 500, hsn = Some ''998331'', gstRate = 18\<rparr>],
     subtotal = 500, gstNumber = ''29AADCB2230M1ZP'', gstPercentage = 18, gstAmount = 90,
     totalAmount = 590, paidAmount = 0, balanceDue = 590, paymentMethod = ''Cash'',
     paymentStatus = Unpaid, paymentDate = None, createdBy = Some 7, hospital = Some 10\<rparr>"

definition settingsDb :: db where
  "settingsDb = exDb\<lparr>settings := [defaultSettings 10 7]\<rparr>"

definition consultDb :: db where
  "consultDb = exDb\<lparr>invoices := [consultInvoice], settings := [defaultSettings 10 7],
                     nextObjectId := 1001\<rparr>"

text \<open>
  The store of two tenants: hospital 11 holds its first invoice of February 2026,
  numbered INV-2602-0001, and hospital 10 holds none; the same store once the settings
  of hospital 10 exist.
\<close>

definition tenant11Invoice :: invoice where
  "tenant11Invoice = scenarioInvoice\<lparr>inv_id := 500, patient := Some 3, doctor := Some 4,
      createdBy := Some 8, hospital := Some 11\<rparr>"

definition twoTenantDb :: db where
  "twoTenantDb = exDb\<lparr>invoices := [tenant11Invoice], patients := [1, 3], doctors := [2, 4],
      hospitals := [10, 11]\<rparr>"

definition twoTenantSettingsDb :: db where
  "twoTenantSettingsDb = twoTenantDb\<lparr>settings := [defaultSettings 10 7]\<rparr>"

definition exRanges :: dateRangesT where
  "exRanges =
    \<lparr>today = \<lparr>range_start = 1769990400000, range_end = 1770000400000\<rparr>,
     yesterday = \<lparr>range_start = 1769904000000, range_end = 1769990399999\<rparr>,
     thisWeek = \<lparr>range_start = 1769904000000, range_end = 1770000400000\<rparr>,
     thisMonth = \<lparr>range_start = 1769904000000, range_end = 1770000400000\<rparr>,
     lastMonth = \<lparr>range_start = 1767225600000, range_end = 1769817600000\<rparr>,
     thisYear = \<lparr>range_start = 1767225600000, range_end = 1770000400000\<rparr>\<rparr>"

section \<open>Lemmas about the model\<close>

subsection \<open>The pre-save hook and save\<close>

lemma preSave_keeps [simp]:
  "totalAmount (preSave now iv) = totalAmount iv"
  "paidAmount (preSave now iv) = paidAmount iv"
  "inv_id (preSave now iv) = inv_id iv"
  "invoiceNumber (preSave now iv) = invoiceNumber iv"
  "appointment (preSave now iv) = appointment iv"
  "hospital (preSave now iv) = hospital iv"
  "customerType (preSave now iv) = customerType iv"
  "invoiceDate (preSave now iv) = invoiceDate iv"
  "items (preSave now iv) = items iv"
  "subtotal (preSave now iv) = subtotal iv"
  "gstAmount (preSave now iv) = gstAmount iv"
  by (simp_all add: preSave_def Let_def)

lemma preSave_balanceDue [simp]:
  "balanceDue (preSave now iv) = totalAmount iv - paidAmount iv"
  by (simp add: preSave_def Let_def)

lemma preSave_paymentStatus:
  "paymentStatus (preSave now iv) =
    (if paidAmount iv \<le> 0 then Unpaid
     else if paidAmount iv < totalAmount iv then Partial else Paid)"
  by (simp add: preSave_def Let_def)

lemma preSave_paymentDate:
  "paymentDate (preSave now iv) =
    (if paidAmount iv \<le> 0 \<or> paidAmount iv < totalAmount iv then paymentDate iv
     else (case paymentDate iv of Some t \<Rightarrow> Some t | None \<Rightarrow> Some now))"
  by (simp add: preSave_def Let_def)


lemma saveNew_Inr:
  "saveNew now iv d = Inr (iv', d') \<Longrightarrow>
     validateInvoice iv = None \<and> iv' = preSave now iv
     \<and> invoiceNumber iv \<notin> set (map invoiceNumber (invoices d))
     \<and> d' = d\<lparr>invoices := invoices d @ [iv'], nextObjectId := Suc (nextObjectId d)\<rparr>"
  by (auto simp: saveNew_def Let_def split: option.splits if_splits)

lemma saveNew_Inl:
  "saveNew now iv d = Inl e \<Longrightarrow>
     validateInvoice iv = Some e \<or> e = DuplicateKey ''invoiceNumber''"
  by (auto simp: saveNew_def Let_def split: option.splits if_splits)

lemma saveExisting_Inr:
  "saveExisting now iv d = Inr (iv', d') \<Longrightarrow>
     validateInvoice iv = None \<and> iv' = preSave now iv
     \<and> d' = d\<lparr>invoices := replaceById iv' (invoices d)\<rparr>"
  by (auto simp: saveExisting_def Let_def split: option.splits)

lemma validateInvoice_None:
  "validateInvoice iv = None \<Longrightarrow>
     0 \<le> subtotal iv \<and> 0 \<le> totalAmount iv \<and> 0 \<le> paidAmount iv
     \<and> list_all validItem (items iv) \<and> hospital iv \<noteq> None"
  by (simp add: validateInvoice_def split: if_splits)

lemma findOne_Some:
  assumes "findOne P xs = Some x"
  shows "x \<in> set xs \<and> P x"
proof -
  from assms obtain ys where "filter P xs = x # ys"
    by (auto simp: findOne_def split: list.splits)
  then have "x \<in> set (filter P xs)" by simp
  then show ?thesis by simp
qed

lemma findOne_None:
  "findOne P xs = None \<longleftrightarrow> filter P xs = []"
  by (simp add: findOne_def split: list.splits)






subsection \<open>Creation and payment update\<close>

lemma invoiceDoc_fields [simp]:
  "appointment (invoiceDoc clk u rq bs d1) = r_appointmentId rq"
  "hospital (invoiceDoc clk u rq bs d1) = Some (hospitalId u)"
  "inv_id (invoiceDoc clk u rq bs d1) = nextObjectId d1"
  "items (invoiceDoc clk u rq bs d1) = map processItem (the (r_items rq))"
  "paidAmount (invoiceDoc clk u rq bs d1) =
     (case parseFloat (r_paidAmount rq) of Some v \<Rightarrow> v | None \<Rightarrow> 0)"
  by (simp_all add: invoiceDoc_def calculateTotals_def Let_def split: prod.splits)

lemma invoiceDoc_paymentDate:
  "paymentDate (invoiceDoc clk u rq bs d1) =
     (if paymentStatus (invoiceDoc clk u rq bs d1) = Paid then Some (nowMs clk) else None)"
  by (simp add: invoiceDoc_def calculateTotals_def Let_def split: prod.splits)

lemma invoiceDoc_paymentStatus:
  "paymentStatus (invoiceDoc clk u rq bs d1) =
     (if paidAmount (invoiceDoc clk u rq bs d1) = 0 then Unpaid
      else if paidAmount (invoiceDoc clk u rq bs d1) < totalAmount (invoiceDoc clk u rq bs d1)
      then Partial else Paid)"
  by (simp add: invoiceDoc_def calculateTotals_def Let_def split: prod.splits)

lemma createInvoice_Sent:
  assumes "createInvoice clk u rq d = (Sent code b, d')"
  shows "\<exists>iv'. saveNew (nowMs clk)
             (invoiceDoc clk u rq (fst (resolveSettings (hospitalId u) (userId u) d))
                (snd (resolveSettings (hospitalId u) (userId u) d)))
             (snd (resolveSettings (hospitalId u) (userId u) d)) = Inr (iv', d')
           \<and> code = 201 \<and> b = BodyInvoice ''Invoice created successfully'' iv'"
  using assms
  by (auto simp: createInvoice_def Let_def split: if_splits prod.splits sum.splits)

lemma applyPayment_fields [simp]:
  "inv_id (applyPayment now rq iv0) = inv_id iv0"
  "totalAmount (applyPayment now rq iv0) = totalAmount iv0"
  "paidAmount (applyPayment now rq iv0) =
     (case parseFloat (p_paidAmount rq) of Some v \<Rightarrow> v | None \<Rightarrow> paidAmount iv0)"
  by (simp_all add: applyPayment_def Let_def split: option.splits)

lemma applyPayment_paymentDate:
  "paymentDate (applyPayment now rq iv0) =
     (let pd = (case p_paymentDate rq of Some t \<Rightarrow> Some t | None \<Rightarrow> paymentDate iv0);
          paid = paidAmount (applyPayment now rq iv0) in
      if paid \<le> 0 \<or> paid < totalAmount iv0 then pd
      else (case pd of Some t \<Rightarrow> Some t | None \<Rightarrow> Some now))"
  by (simp add: applyPayment_def Let_def split: option.splits)

lemma updateInvoicePayment_Sent:
  assumes "updateInvoicePayment now ident rq d = (Sent code b, d')"
  shows "\<exists>iv0 iv'. findOne (\<lambda>i. inv_id i = ident) (invoices d) = Some iv0
      \<and> saveExisting now (applyPayment now rq iv0) d = Inr (iv', d')
      \<and> code = 200 \<and> b = BodyInvoice ''Invoice payment updated successfully'' iv'"
  using assms
  unfolding updateInvoicePayment_def
  by (auto split: option.splits if_splits sum.splits prod.splits)

lemma update_payment_date:
  assumes a: "updateInvoicePayment now ident rq d = (Sent code (BodyInvoice msg iv'), d')"
  shows "\<exists>iv0. findOne (\<lambda>i. inv_id i = ident) (invoices d) = Some iv0
        \<and> (paidAmount iv' \<le> 0 \<longrightarrow> paymentStatus iv' = Unpaid
              \<and> paymentDate iv' =
                  (case p_paymentDate rq of Some t \<Rightarrow> Some t | None \<Rightarrow> paymentDate iv0))
        \<and> (0 < paidAmount iv' \<and> totalAmount iv' \<le> paidAmount iv' \<longrightarrow> paymentStatus iv' = Paid
              \<and> paymentDate iv' =
                  (case p_paymentDate rq of Some t \<Rightarrow> Some t
                   | None \<Rightarrow> (case paymentDate iv0 of Some t \<Rightarrow> Some t | None \<Rightarrow> Some now)))"
proof -
  from updateInvoicePayment_Sent [OF a] obtain iv0 where
    f: "findOne (\<lambda>i. inv_id i = ident) (invoices d) = Some iv0"
    and s: "saveExisting now (applyPayment now rq iv0) d = Inr (iv', d')"
    by auto
  from saveExisting_Inr [OF s] have eq: "iv' = preSave now (applyPayment now rq iv0)" by simp
  have u: "paidAmount iv' \<le> 0 \<longrightarrow> paymentStatus iv' = Unpaid
              \<and> paymentDate iv' =
                  (case p_paymentDate rq of Some t \<Rightarrow> Some t | None \<Rightarrow> paymentDate iv0)"
    unfolding eq
    by (simp add: preSave_paymentStatus preSave_paymentDate applyPayment_paymentDate Let_def
             del: applyPayment_fields(3))
  have p: "0 < paidAmount iv' \<and> totalAmount iv' \<le> paidAmount iv' \<longrightarrow> paymentStatus iv' = Paid
              \<and> paymentDate iv' =
                  (case p_paymentDate rq of Some t \<Rightarrow> Some t
                   | None \<Rightarrow> (case paymentDate iv0 of Some t \<Rightarrow> Some t | None \<Rightarrow> Some now))"
    unfolding eq
    by (auto simp add: preSave_paymentStatus preSave_paymentDate applyPayment_paymentDate Let_def
             simp del: applyPayment_fields(3) split: option.splits)
  from f u p show ?thesis by blast
qed

lemma create_payment_date:
  assumes a: "createInvoice clk u crq d = (Sent code (BodyInvoice msg iv'), d')"
  shows "(paidAmount iv' \<le> 0 \<longrightarrow> paymentStatus iv' = Unpaid \<and> paymentDate iv' = None)
        \<and> (0 < paidAmount iv' \<and> totalAmount iv' \<le> paidAmount iv' \<longrightarrow>
              paymentStatus iv' = Paid \<and> paymentDate iv' = Some (nowMs clk))"
proof -
  define bs where "bs = fst (resolveSettings (hospitalId u) (userId u) d)"
  define d1 where "d1 = snd (resolveSettings (hospitalId u) (userId u) d)"
  define doc where "doc = invoiceDoc clk u crq bs d1"
  from createInvoice_Sent [OF a] have s: "saveNew (nowMs clk) doc d1 = Inr (iv', d')"
    by (auto simp: bs_def d1_def doc_def)
  from saveNew_Inr [OF s] have eq: "iv' = preSave (nowMs clk) doc"
    and v: "validateInvoice doc = None" by simp_all
  from validateInvoice_None [OF v] have nn: "0 \<le> paidAmount doc" by simp
  have pd: "paymentDate doc = (if paymentStatus doc = Paid then Some (nowMs clk) else None)"
    unfolding doc_def by (rule invoiceDoc_paymentDate)
  have ps: "paymentStatus doc = (if paidAmount doc = 0 then Unpaid
      else if paidAmount doc < totalAmount doc then Partial else Paid)"
    unfolding doc_def by (rule invoiceDoc_paymentStatus)
  show ?thesis
    unfolding eq using nn
    by (auto simp: preSave_paymentStatus preSave_paymentDate pd ps)
qed

text \<open>
  C5 (as amended). On every payment-state derivation (the pre-save hook, a payment
  update, an invoice creation): when paidAmount \<le> 0 the status is unpaid and the
  paymentDate is left as it was (the date the request supplied, else the stored one;
  none at creation); when paidAmount > 0 and paidAmount \<ge> totalAmount the status is
  paid and paymentDate is set to the current time only if it is not already set.
\<close>

theorem payment_date_on_derivation:
  "(paidAmount iv \<le> 0 \<longrightarrow>
      paymentStatus (preSave now iv) = Unpaid \<and> paymentDate (preSave now iv) = paymentDate iv)
   \<and> (0 < paidAmount iv \<and> totalAmount iv \<le> paidAmount iv \<longrightarrow>
      paymentStatus (preSave now iv) = Paid
      \<and> paymentDate (preSave now iv) =
          (case paymentDate iv of Some t \<Rightarrow> Some t | None \<Rightarrow> Some now))
   \<and> (updateInvoicePayment now ident rq d = (Sent code (BodyInvoice msg iv'), d') \<longrightarrow>
      (\<exists>iv0. findOne (\<lambda>i. inv_id i = ident) (invoices d) = Some iv0
        \<and> (paidAmount iv' \<le> 0 \<longrightarrow> paymentStatus iv' = Unpaid
              \<and> paymentDate iv' =
                  (case p_paymentDate rq of Some t \<Rightarrow> Some t | None \<Rightarrow> paymentDate iv0))
        \<and> (0 < paidAmount iv' \<and> totalAmount iv' \<le> paidAmount iv' \<longrightarrow> paymentStatus iv' = Paid
              \<and> paymentDate iv' =
                  (case p_paymentDate rq of Some t \<Rightarrow> Some t
                   | None \<Rightarrow> (case paymentDate iv0 of Some t \<Rightarrow> Some t | None \<Rightarrow> Some now)))))
   \<and> (createInvoice clk u crq d = (Sent code (BodyInvoice msg iv'), d') \<longrightarrow>
        (paidAmount iv' \<le> 0 \<longrightarrow> paymentStatus iv' = Unpaid \<and> paymentDate iv' = None)
        \<and> (0 < paidAmount iv' \<and> totalAmount iv' \<le> paidAmount iv' \<longrightarrow>
              paymentStatus iv' = Paid \<and> paymentDate iv' = Some (nowMs clk)))"
proof -
  have h: "(paidAmount iv \<le> 0 \<longrightarrow>
      paymentStatus (preSave now iv) = Unpaid \<and> paymentDate (preSave now iv) = paymentDate iv)
   \<and> (0 < paidAmount iv \<and> totalAmount iv \<le> paidAmount iv \<longrightarrow>
      paymentStatus (preSave now iv) = Paid
      \<and> paymentDate (preSave now iv) =
          (case paymentDate iv of Some t \<Rightarrow> Some t | None \<Rightarrow> Some now))"
    by (simp add: preSave_paymentStatus preSave_paymentDate)
  from h update_payment_date [of now ident rq d code msg iv' d']
       create_payment_date [of clk u crq d code msg iv' d']
  show ?thesis by blast
qed

text \<open>
  The theorem at the full payment of the two-item invoice, which had no paymentDate:
  the status becomes paid and the date is the time of the update.
\<close>

theorem payment_date_on_derivation_witness:
  "updateInvoicePayment 1770000100000 1000 payFullReq scenarioDb
     = (Sent 200 (BodyInvoice ''Invoice payment updated successfully'' paidScenarioInvoice),
        scenarioDb\<lparr>invoices := [paidScenarioInvoice]\<rparr>)
   \<and> findOne (\<lambda>i. inv_id i = 1000) (invoices scenarioDb) = Some scenarioInvoice
   \<and> paymentDate scenarioInvoice = None
   \<and> 0 < paidAmount paidScenarioInvoice
   \<and> totalAmount paidScenarioInvoice \<le> paidAmount paidScenarioInvoice
   \<and> paymentStatus paidScenarioInvoice = Paid
   \<and> paymentDate paidScenarioInvoice = Some 1770000100000"
proof -
  have h: "updateInvoicePayment 1770000100000 1000 payFullReq scenarioDb
     = (Sent 200 (BodyInvoice ''Invoice payment updated successfully'' paidScenarioInvoice),
        scenarioDb\<lparr>invoices := [paidScenarioInvoice]\<rparr>)"
    by code_simp
  have f: "findOne (\<lambda>i. inv_id i = 1000) (invoices scenarioDb) = Some scenarioInvoice"
    by code_simp
  have v: "paymentDate scenarioInvoice = None" "0 < paidAmount paidScenarioInvoice"
    "totalAmount paidScenarioInvoice \<le> paidAmount paidScenarioInvoice"
    "p_paymentDate payFullReq = None"
    by (simp_all add: scenarioInvoice_def paidScenarioInvoice_def payFullReq_def)
  from payment_date_on_derivation [where now = 1770000100000 and ident = 1000
      and rq = payFullReq and d = scenarioDb and code = 200
      and msg = "''Invoice payment updated successfully''" and iv' = paidScenarioInvoice
      and d' = "scenarioDb\<lparr>invoices := [paidScenarioInvoice]\<rparr>"] h f v
  show ?thesis by simp
qed

text \<open>
  C5 as stated fails: a payment update to paidAmount 0 on the paid invoice gives the
  status unpaid and leaves the stored paymentDate in place.
\<close>

theorem payment_date_not_cleared_counterexample:
  "updateInvoicePayment 1770000200000 1000 refundReq (scenarioDb\<lparr>invoices := [paidScenarioInvoice]\<rparr>)
     = (Sent 200 (BodyInvoice ''Invoice payment updated successfully'' refundedInvoice),
        scenarioDb\<lparr>invoices := [refundedInvoice]\<rparr>)
   \<and> paidAmount refundedInvoice \<le> 0
   \<and> paymentStatus refundedInvoice = Unpaid
   \<and> paymentDate paidScenarioInvoice = Some 1770000100000
   \<and> paymentDate refundedInvoice = Some 1770000100000"
  by code_simp



lemma resolveSettings_invoices [simp]:
  "invoices (snd (resolveSettings hid uid d)) = invoices d"
  by (simp add: resolveSettings_def split: option.splits)

lemma createInvoice_invoices:
  "(\<exists>e. fst (createInvoice clk u rq d) = Next e
         \<and> invoices (snd (createInvoice clk u rq d)) = invoices d)
   \<or> (\<exists>doc. invoices (snd (createInvoice clk u rq d)) = invoices d @ [preSave (nowMs clk) doc]
        \<and> validateInvoice doc = None
        \<and> fst (createInvoice clk u rq d)
            = Sent 201 (BodyInvoice ''Invoice created successfully'' (preSave (nowMs clk) doc))
        \<and> doc = invoiceDoc clk u rq (fst (resolveSettings (hospitalId u) (userId u) d))
                (snd (resolveSettings (hospitalId u) (userId u) d)))"
proof (cases "createInvoice clk u rq d")
  case (Pair out d')
  show ?thesis
  proof (cases out)
    case (Sent code b)
    with Pair createInvoice_Sent [of clk u rq d code b d'] obtain iv' where
      s: "saveNew (nowMs clk)
             (invoiceDoc clk u rq (fst (resolveSettings (hospitalId u) (userId u) d))
                (snd (resolveSettings (hospitalId u) (userId u) d)))
             (snd (resolveSettings (hospitalId u) (userId u) d)) = Inr (iv', d')"
      and b: "code = 201" "b = BodyInvoice ''Invoice created successfully'' iv'"
      by auto
    from saveNew_Inr [OF s] Pair Sent b show ?thesis by auto
  next
    case (Next e)
    with Pair have "invoices d' = invoices d"
      by (auto simp: createInvoice_def Let_def split: if_splits prod.splits sum.splits)
         (metis resolveSettings_invoices snd_conv)+
    with Pair Next show ?thesis by simp
  qed
qed






subsection \<open>Invoice numbers\<close>

lemma lt10_cases:
  "(k::nat) < 10 \<Longrightarrow> k = 0 \<or> k = 1 \<or> k = 2 \<or> k = 3 \<or> k = 4 \<or> k = 5 \<or> k = 6 \<or> k = 7 \<or> k = 8 \<or> k = 9"
  by arith

lemma digitVal_digitChar: "k < 10 \<Longrightarrow> digitVal (digitChar k) = k"
  using lt10_cases [of k] by (auto simp: digitChar_def digitVal_def)

lemma isDigit_digitChar: "k < 10 \<Longrightarrow> isDigit (digitChar k)"
  using lt10_cases [of k] by (auto simp: digitChar_def isDigit_def)

lemma decimalValue_snoc: "decimalValue (s @ [c]) = 10 * decimalValue s + digitVal c"
  by (simp add: decimalValue_def)

lemma decimalValue_toStringNat: "decimalValue (toStringNat n) = n"
proof (induction n rule: toStringNat.induct)
  case (1 n)
  show ?case
  proof (cases "n < 10")
    case True
    then show ?thesis
      by (simp add: toStringNat.simps [of n] decimalValue_def digitVal_digitChar)
  next
    case False
    with 1 have "decimalValue (toStringNat (n div 10)) = n div 10" by simp
    with False show ?thesis
      by (simp add: toStringNat.simps [of n] decimalValue_snoc digitVal_digitChar)
  qed
qed

lemma toStringNat_digits: "list_all isDigit (toStringNat n)"
proof (induction n rule: toStringNat.induct)
  case (1 n)
  show ?case
  proof (cases "n < 10")
    case True
    then show ?thesis by (simp add: toStringNat.simps [of n] isDigit_digitChar)
  next
    case False
    with 1 show ?thesis by (simp add: toStringNat.simps [of n] isDigit_digitChar)
  qed
qed

lemma toStringNat_nonempty: "toStringNat n \<noteq> []"
  by (simp add: toStringNat.simps [of n])

lemma last_toStringNat: "last (toStringNat n) = digitChar (n mod 10)"
  by (simp add: toStringNat.simps [of n])

lemma length_toStringNat_le:
  "n < 10 ^ k \<Longrightarrow> 0 < k \<Longrightarrow> length (toStringNat n) \<le> k"
proof (induction n arbitrary: k rule: toStringNat.induct)
  case (1 n)
  show ?case
  proof (cases "n < 10")
    case True
    with 1(3) show ?thesis by (simp add: toStringNat.simps [of n])
  next
    case False
    from 1(3) obtain j where kj: "k = Suc j" by (cases k) auto
    have "0 < j"
    proof (rule ccontr)
      assume "\<not> 0 < j"
      with kj 1(2) have "n < 10" by simp
      with False show False by simp
    qed
    with kj have j: "k = Suc j" "0 < j" by simp_all
    with 1(2) have "n div 10 < 10 ^ j" by (simp add: less_mult_imp_div_less mult.commute)
    with 1(1) [OF False this j(2)] False j show ?thesis
      by (simp add: toStringNat.simps [of n])
  qed
qed

lemma decimalValue_zeros: "decimalValue (replicate k (CHR ''0'') @ s) = decimalValue s"
proof -
  have "foldl (\<lambda>acc c. 10 * acc + digitVal c) 0 (replicate k (CHR ''0'')) = 0"
    by (induction k) (simp_all add: digitVal_def)
  then show ?thesis by (simp add: decimalValue_def)
qed

lemma twoDigits_pad: "n < 100 \<Longrightarrow> padStart 2 (CHR ''0'') (toStringNat n) = twoDigits n"
proof (cases "n < 10")
  case True
  then show "padStart 2 (CHR ''0'') (toStringNat n) = twoDigits n"
    by (simp add: padStart_def toStringNat.simps [of n] twoDigits_def digitChar_def)
next
  case False
  assume "n < 100"
  with False have "n div 10 < 10" by simp
  with False show "padStart 2 (CHR ''0'') (toStringNat n) = twoDigits n"
    by (simp add: padStart_def toStringNat.simps [of n] toStringNat.simps [of "n div 10"] twoDigits_def)
qed

lemma twoDigits_slice: "10 \<le> n \<Longrightarrow> sliceLast2 (toStringNat n) = twoDigits n"
proof -
  assume "10 \<le> n"
  then have e: "toStringNat n = toStringNat (n div 10) @ [digitChar (n mod 10)]"
    by (simp add: toStringNat.simps [of n])
  obtain xs where xs: "toStringNat (n div 10) = xs @ [digitChar (n div 10 mod 10)]"
    using toStringNat_nonempty [of "n div 10"] last_toStringNat [of "n div 10"]
    by (metis append_butlast_last_id)
  show ?thesis
    by (simp add: e xs sliceLast2_def twoDigits_def)
qed


lemma length_padStart: "length (padStart n c s) = max n (length s)"
  by (simp add: padStart_def)

lemma padStart_digits:
  assumes "list_all isDigit s"
  shows "list_all isDigit (padStart n (CHR ''0'') s)"
proof -
  have z: "isDigit (CHR ''0'')" by (simp add: isDigit_def)
  have "list_all isDigit (replicate (n - length s) (CHR ''0''))"
    using z by (simp add: list_all_iff)
  with assms show ?thesis by (simp add: padStart_def)
qed

text \<open>
  C1 (as amended). For a month index below 12 and a year of at least two digits,
  generateInvoiceNumber(prefix, hospital) returns \<open>{prefix}-{YY}{MM}-{seq}\<close>, where
  YY are the last two digits of the year, MM is the two-digit month, and seq is the
  decimal numeral of count + 1, zero-padded to at least four digits (exactly four below
  9999 invoices); count is the number of all stored invoices of the hospital, whatever
  their prefix or month, so the counter is scoped to the tenant alone.
\<close>

theorem invoice_number_format:
  assumes m: "month0 clk < 12" and y: "10 \<le> fullYear clk"
  shows "generateInvoiceNumber clk pfx hid invs
      = (case pfx of None \<Rightarrow> ''INV'' | Some q \<Rightarrow> q) @ ''-'' @ twoDigits (fullYear clk)
          @ twoDigits (month0 clk + 1) @ ''-''
          @ seqPart (case pfx of None \<Rightarrow> ''INV'' | Some q \<Rightarrow> q)
              (generateInvoiceNumber clk pfx hid invs)
    \<and> list_all isDigit (seqPart (case pfx of None \<Rightarrow> ''INV'' | Some q \<Rightarrow> q)
              (generateInvoiceNumber clk pfx hid invs))
    \<and> decimalValue (seqPart (case pfx of None \<Rightarrow> ''INV'' | Some q \<Rightarrow> q)
              (generateInvoiceNumber clk pfx hid invs))
        = length (filter (\<lambda>i. hospital i = Some hid) invs) + 1
    \<and> 4 \<le> length (seqPart (case pfx of None \<Rightarrow> ''INV'' | Some q \<Rightarrow> q)
              (generateInvoiceNumber clk pfx hid invs))
    \<and> (length (filter (\<lambda>i. hospital i = Some hid) invs) < 9999 \<longrightarrow>
         length (seqPart (case pfx of None \<Rightarrow> ''INV'' | Some q \<Rightarrow> q)
              (generateInvoiceNumber clk pfx hid invs)) = 4)"
proof -
  define p where "p = (case pfx of None \<Rightarrow> ''INV'' | Some q \<Rightarrow> q)"
  define k where "k = length (filter (\<lambda>i. hospital i = Some hid) invs)"
  define sq where "sq = padStart 4 (CHR ''0'') (toStringNat (k + 1))"
  from m have mm: "padStart 2 (CHR ''0'') (toStringNat (month0 clk + 1)) = twoDigits (month0 clk + 1)"
    by (intro twoDigits_pad) simp
  from y have yy: "sliceLast2 (toStringNat (fullYear clk)) = twoDigits (fullYear clk)"
    by (rule twoDigits_slice)
  have g: "generateInvoiceNumber clk pfx hid invs
      = p @ ''-'' @ twoDigits (fullYear clk) @ twoDigits (month0 clk + 1) @ ''-'' @ sq"
    unfolding generateInvoiceNumber_def Let_def mm yy p_def k_def sq_def by (rule refl)
  have s: "seqPart p (generateInvoiceNumber clk pfx hid invs) = sq"
    by (simp add: g seqPart_def twoDigits_def)
  have d: "list_all isDigit sq"
    unfolding sq_def by (rule padStart_digits) (rule toStringNat_digits)
  have v: "decimalValue sq = k + 1"
    by (simp add: sq_def padStart_def decimalValue_zeros decimalValue_toStringNat)
  have l: "4 \<le> length sq"
    by (simp add: sq_def length_padStart)
  have l4: "k < 9999 \<longrightarrow> length sq = 4"
  proof
    assume "k < 9999"
    then have "k + 1 < 10 ^ 4" by simp
    then have "length (toStringNat (k + 1)) \<le> 4"
      by (rule length_toStringNat_le) simp
    then show "length sq = 4" by (simp add: sq_def length_padStart)
  qed
  from g s d v l l4 show ?thesis
    unfolding p_def [symmetric] k_def [symmetric] by simp
qed

text \<open>
  The theorem at the store holding the one invoice INV-2602-0001 of hospital 10, for
  prefix PH in February 2026.
\<close>

theorem invoice_number_format_witness:
  "month0 exClock < 12 \<and> 10 \<le> fullYear exClock
   \<and> generateInvoiceNumber exClock (Some ''PH'') 10 (invoices scenarioDb) = ''PH-2602-0002''
   \<and> seqPart ''PH'' ''PH-2602-0002'' = ''0002''
   \<and> decimalValue ''0002'' = length (filter (\<lambda>i. hospital i = Some 10) (invoices scenarioDb)) + 1
   \<and> length ''0002'' = 4"
proof -
  have m: "month0 exClock < 12" and y: "10 \<le> fullYear exClock"
    by (simp_all add: exClock_def)
  have h: "generateInvoiceNumber exClock (Some ''PH'') 10 (invoices scenarioDb) = ''PH-2602-0002''"
    by code_simp
  have s: "seqPart ''PH'' ''PH-2602-0002'' = ''0002''"
    by (simp add: seqPart_def)
  from invoice_number_format [OF m y, of "Some ''PH''" 10 "invoices scenarioDb"] m y h s
  show ?thesis by simp
qed

text \<open>
  C1 as stated fails: with the one invoice INV-2602-0001 stored for hospital 10, a
  number for the new prefix PH in the new month March 2026 does not restart at 0001.
\<close>

theorem invoice_number_scope_counterexample:
  "map invoiceNumber (invoices scenarioDb) = [''INV-2602-0001'']
   \<and> generateInvoiceNumber marchClock (Some ''PH'') 10 (invoices scenarioDb) = ''PH-2603-0002''
   \<and> generateInvoiceNumber marchClock (Some ''PH'') 10 (invoices scenarioDb) \<noteq> ''PH-2603-0001''"
  by code_simp

subsection \<open>Walk-in lookup\<close>

text \<open>
  C10. getWalkInInvoiceById returns an invoice only when it has the requested id,
  belongs to the requesting user's hospital and has customerType walk-in; for a stored
  invoice of another tenant, or of a registered patient, it answers 404 not found
  (document ids being unique in the collection).
\<close>

theorem getWalkInInvoiceById_scoped:
  "(getWalkInInvoiceById u ident d = Sent code (BodyInvoice msg iv) \<longrightarrow>
      iv \<in> set (invoices d) \<and> inv_id iv = ident
      \<and> hospital iv = user_hospital u \<and> customerType iv = WalkIn)
   \<and> (distinct (map inv_id (invoices d)) \<and> iv \<in> set (invoices d)
        \<and> (hospital iv \<noteq> user_hospital u \<or> customerType iv = Registered) \<longrightarrow>
      getWalkInInvoiceById u (inv_id iv) d = Sent 404 (BodyNotFound ''Invoice not found''))"
proof (rule conjI)
  show "getWalkInInvoiceById u ident d = Sent code (BodyInvoice msg iv) \<longrightarrow>
      iv \<in> set (invoices d) \<and> inv_id iv = ident
      \<and> hospital iv = user_hospital u \<and> customerType iv = WalkIn"
    by (auto simp: getWalkInInvoiceById_def split: option.splits dest: findOne_Some)
next
  show "distinct (map inv_id (invoices d)) \<and> iv \<in> set (invoices d)
        \<and> (hospital iv \<noteq> user_hospital u \<or> customerType iv = Registered) \<longrightarrow>
      getWalkInInvoiceById u (inv_id iv) d = Sent 404 (BodyNotFound ''Invoice not found'')"
  proof
    assume a: "distinct (map inv_id (invoices d)) \<and> iv \<in> set (invoices d)
        \<and> (hospital iv \<noteq> user_hospital u \<or> customerType iv = Registered)"
    then have inj: "inj_on inv_id (set (invoices d))" by (simp add: distinct_map)
    have "filter (\<lambda>i. inv_id i = inv_id iv \<and> hospital i = user_hospital u
                        \<and> customerType i = WalkIn) (invoices d) = []"
    proof (rule ccontr)
      assume "filter (\<lambda>i. inv_id i = inv_id iv \<and> hospital i = user_hospital u
                        \<and> customerType i = WalkIn) (invoices d) \<noteq> []"
      then obtain x where x: "x \<in> set (invoices d)" "inv_id x = inv_id iv"
        "hospital x = user_hospital u" "customerType x = WalkIn"
        by (auto simp: filter_empty_conv)
      from inj x(1,2) a have "x = iv" by (auto dest: inj_onD)
      with x a show False by auto
    qed
    then show "getWalkInInvoiceById u (inv_id iv) d = Sent 404 (BodyNotFound ''Invoice not found'')"
      by (simp add: getWalkInInvoiceById_def findOne_def)
  qed
qed

text \<open>
  The theorem at a user of hospital 10: the walk-in invoice of hospital 10 is returned,
  the walk-in invoice of hospital 11 is not found.
\<close>

theorem getWalkInInvoiceById_scoped_witness:
  "getWalkInInvoiceById exUser 2000 walkInDb = Sent 200 (BodyInvoice [] walkInInvoice)
   \<and> walkInInvoice \<in> set (invoices walkInDb)
   \<and> hospital walkInInvoice = user_hospital exUser
   \<and> customerType walkInInvoice = WalkIn
   \<and> distinct (map inv_id (invoices walkInDb))
   \<and> otherTenantInvoice \<in> set (invoices walkInDb)
   \<and> hospital otherTenantInvoice \<noteq> user_hospital exUser
   \<and> getWalkInInvoiceById exUser (inv_id otherTenantInvoice) walkInDb
        = Sent 404 (BodyNotFound ''Invoice not found'')"
proof -
  have h: "getWalkInInvoiceById exUser 2000 walkInDb = Sent 200 (BodyInvoice [] walkInInvoice)"
    by code_simp
  have dd: "distinct (map inv_id (invoices walkInDb))"
    by code_simp
  have m: "otherTenantInvoice \<in> set (invoices walkInDb)"
    by (simp add: walkInDb_def)
  have o: "hospital otherTenantInvoice \<noteq> user_hospital exUser"
    by (simp add: otherTenantInvoice_def exUser_def)
  from getWalkInInvoiceById_scoped [of exUser 2000 walkInDb 200 "[]" walkInInvoice]
       getWalkInInvoiceById_scoped [of exUser 2001 walkInDb 200 "[]" otherTenantInvoice]
       h dd m o
  show ?thesis by simp
qed

subsection \<open>Line item amounts\<close>

text \<open>A supplied amount other than 0 is kept; a missing amount is computed.\<close>

lemma processItem_amount_supplied:
  "ri_amount it = Some a \<Longrightarrow> a \<noteq> 0 \<Longrightarrow> amount (processItem it) = a"
  by (simp add: processItem_def)

lemma processItem_amount_missing:
  "ri_amount it = None \<Longrightarrow> amount (processItem it) = fmul (ri_quantity it) (ri_unitPrice it)"
  by (simp add: processItem_def)

text \<open>
  C6, the code at an item whose caller-supplied amount is 0 (quantity 2, unit price
  500): the stored amount is 1000, not the supplied 0, and the totals follow it.
\<close>

theorem waived_amount_recomputed:
  "ri_amount waivedItem = Some 0
   \<and> calculateTotals [waivedItem] 18
      = ([\<lparr>description = ''Dressing (waived)'', quantity = 2, unitPrice = 500, amount = 1000,
            hsn = None, gstRate = 0\<rparr>], 1000, 180, 1180)"
  by code_simp

subsection \<open>Double arithmetic\<close>

lemma roundEven_of_int: "roundEven (of_int k) = k"
  by (simp add: roundEven_def)

lemma roundEven_ge: "of_int k \<le> z \<Longrightarrow> k \<le> roundEven z"
proof -
  assume "of_int k \<le> z"
  then have "k \<le> \<lfloor>z\<rfloor>" by (simp add: le_floor_iff)
  then show ?thesis by (simp add: roundEven_def Let_def)
qed

lemma roundEven_unit: "0 < z \<Longrightarrow> z < 1 \<Longrightarrow> roundEven z = 0 \<or> roundEven z = 1"
proof -
  assume "0 < z" "z < 1"
  then have "\<lfloor>z\<rfloor> = 0" by (simp add: floor_eq_iff)
  then show ?thesis by (simp add: roundEven_def Let_def)
qed

text \<open>\<open>flog2 y\<close> is the binary exponent of a positive \<open>y\<close>.\<close>

lemma flog2_le:
  assumes "0 < y"
  shows "2 powi flog2 y \<le> y"
proof -
  define a where "a = fst (quotient_of y)"
  define b where "b = snd (quotient_of y)"
  have b: "0 < b" by (simp add: b_def quotient_of_denom_pos')
  have y: "y = of_int a / of_int b"
    by (rule quotient_of_div) (simp add: a_def b_def)
  from assms y b have a: "0 < a"
    by (simp add: zero_less_divide_iff)
  define p0 where "p0 = bitlen a - bitlen b"
  show ?thesis
  proof (cases "2 powi p0 \<le> y")
    case True
    then show ?thesis by (simp add: flog2_def Let_def p0_def a_def b_def)
  next
    case False
    from bitlen_bounds [OF a] have la: "(2::rat) ^ nat (bitlen a - 1) \<le> of_int a"
      by (metis of_int_le_iff of_int_numeral of_int_power)
    from bitlen_bounds [OF b] have ub: "of_int b \<le> (2::rat) ^ nat (bitlen b)"
      by (metis less_imp_le of_int_le_iff of_int_numeral of_int_power)
    have ba: "0 < bitlen a" and bb: "0 \<le> bitlen b"
      using a bitlen_nonneg [of b] bitlen_eq_zero_iff [of a] bitlen_nonneg [of a] by auto
    have "(2::rat) powi (p0 - 1) = 2 powi (bitlen a - 1) / 2 powi (bitlen b)"
      by (simp add: p0_def power_int_diff [symmetric] algebra_simps)
    also have "\<dots> = 2 ^ nat (bitlen a - 1) / 2 ^ nat (bitlen b)"
      using ba bb by (simp add: power_int_def)
    also have "\<dots> \<le> of_int a / of_int b"
      using la ub b a by (intro frac_le) simp_all
    finally have "2 powi (p0 - 1) \<le> y" by (simp add: y)
    with False show ?thesis by (simp add: flog2_def Let_def p0_def a_def b_def)
  qed
qed

lemma flog2_gt:
  assumes "0 < y"
  shows "y < 2 powi (flog2 y + 1)"
proof -
  define a where "a = fst (quotient_of y)"
  define b where "b = snd (quotient_of y)"
  have b: "0 < b" by (simp add: b_def quotient_of_denom_pos')
  have y: "y = of_int a / of_int b"
    by (rule quotient_of_div) (simp add: a_def b_def)
  from assms y b have a: "0 < a"
    by (simp add: zero_less_divide_iff)
  define p0 where "p0 = bitlen a - bitlen b"
  show ?thesis
  proof (cases "2 powi p0 \<le> y")
    case False
    then show ?thesis by (simp add: flog2_def Let_def p0_def a_def b_def)
  next
    case True
    from bitlen_bounds [OF a] have ua: "of_int a < (2::rat) ^ nat (bitlen a)"
      by (metis of_int_less_iff of_int_numeral of_int_power)
    from bitlen_bounds [OF b] have lb: "(2::rat) ^ nat (bitlen b - 1) \<le> of_int b"
      by (metis of_int_le_iff of_int_numeral of_int_power)
    have ba: "0 \<le> bitlen a" and bb: "0 < bitlen b"
      using b bitlen_eq_zero_iff [of b] bitlen_nonneg [of b] bitlen_nonneg [of a] by auto
    have "of_int a / of_int b < (2::rat) ^ nat (bitlen a) / 2 ^ nat (bitlen b - 1)"
      using ua lb a b by (intro frac_less) simp_all
    also have "\<dots> = 2 powi (bitlen a) / 2 powi (bitlen b - 1)"
      using ba bb by (simp add: power_int_def)
    also have "\<dots> = 2 powi (p0 + 1)"
      by (simp add: p0_def power_int_diff [symmetric] algebra_simps)
    finally have "y < 2 powi (p0 + 1)" by (simp add: y)
    with True show ?thesis by (simp add: flog2_def Let_def p0_def a_def b_def)
  qed
qed

lemma rnd_minus: "rnd (- x) = - rnd x"
  by (simp add: rnd_def Let_def sgn_minus)

lemma quantum_le:
  assumes "2 powi (- 1074) \<le> y"
  shows "2 powi (max (flog2 y - 52) (- 1074)) \<le> y"
proof -
  have pos: "0 < y"
    using assms by (rule less_le_trans [rotated]) simp
  have "(2::rat) powi (flog2 y - 52) \<le> 2 powi flog2 y"
    by (rule power_int_increasing) simp_all
  with flog2_le [OF pos] have "2 powi (flog2 y - 52) \<le> y" by simp
  with assms show ?thesis by (simp add: max_def)
qed

text \<open>Rounding keeps the sign of a value that is at least the smallest double in size.\<close>

lemma rnd_pos:
  assumes "2 powi (- 1074) \<le> y"
  shows "0 < rnd y"
proof -
  have pos: "0 < y"
    using assms by (rule less_le_trans [rotated]) simp
  define e where "e = max (flog2 y - 52) (- 1074)"
  have q: "(0::rat) < 2 powi e" by simp
  from quantum_le [OF assms] have "1 \<le> y / 2 powi e"
    using q by (simp add: e_def le_divide_eq)
  then have "1 \<le> roundEven (y / 2 powi e)"
    using roundEven_ge [of 1 "y / 2 powi e"] by simp
  then have "(0::rat) < of_int (roundEven (y / 2 powi e)) * 2 powi e"
    using q by (simp add: zero_less_mult_iff)
  with pos show ?thesis
    by (simp add: rnd_def Let_def e_def)
qed

lemma MIN_VALUE_pos: "0 < MIN_VALUE"
  by (simp add: MIN_VALUE_def)

lemma rnd_neg: "x \<le> - MIN_VALUE \<Longrightarrow> rnd x < 0"
  unfolding MIN_VALUE_def using rnd_pos [of "- x"] by (simp add: rnd_minus)

text \<open>Every integer below \<open>2 ^ 53\<close> in absolute value is a double.\<close>

lemma isDouble_of_int:
  assumes "\<bar>n\<bar> < 2 ^ 53"
  shows "isDouble (of_int n)"
proof (cases "n = 0")
  case True
  then show ?thesis by (simp add: isDouble_def rnd_def)
next
  case False
  define y :: rat where "y = of_int \<bar>n\<bar>"
  from False have y1: "1 \<le> y" by (simp add: y_def)
  then have pos: "0 < y" by simp
  from assms have "y < 2 ^ 53"
    unfolding y_def by (metis of_int_less_iff of_int_numeral of_int_power)
  then have "y < 2 powi 53" by simp
  with flog2_le [OF pos] have "(2::rat) powi flog2 y < 2 powi 53" by simp
  then have "flog2 y < 53" by (rule power_int_le_imp_less_exp [rotated]) simp_all
  define e where "e = max (flog2 y - 52) (- 1074)"
  from \<open>flog2 y < 53\<close> have e: "e \<le> 0" by (simp add: e_def)
  then have pe: "(2::rat) powi e = 1 / 2 ^ nat (- e)"
    by (cases "e = 0") (simp_all add: power_int_def field_simps)
  have "y / 2 powi e = of_int (\<bar>n\<bar> * 2 ^ nat (- e))"
    by (simp add: pe y_def)
  then have "roundEven (y / 2 powi e) = \<bar>n\<bar> * 2 ^ nat (- e)"
    by (simp only: roundEven_of_int)
  then have "of_int (roundEven (y / 2 powi e)) * 2 powi e = y"
    by (simp add: pe y_def)
  then have "rnd (of_int n) = sgn (of_int n) * y"
    using False by (simp add: rnd_def Let_def e_def y_def)
  also have "\<dots> = of_int n"
    by (simp add: y_def sgn_if)
  finally show ?thesis by (simp add: isDouble_def)
qed

text \<open>A negative double, and a negative result of rounding, is at most \<open>- MIN_VALUE\<close>.\<close>

lemma neg_double_le:
  assumes "a < 0" and "isDouble a"
  shows "a \<le> - MIN_VALUE"
  unfolding MIN_VALUE_def
proof (rule ccontr)
  assume "\<not> a \<le> - (2 powi (- 1074))"
  then have lt: "- a < 2 powi (- 1074)" by simp
  define y where "y = - a"
  from assms have pos: "0 < y" by (simp add: y_def)
  from lt flog2_le [OF pos] have "(2::rat) powi flog2 y < 2 powi (- 1074)"
    by (simp add: y_def)
  then have "flog2 y < - 1074"
    by (metis linorder_not_less one_le_numeral power_int_increasing)
  then have e: "max (flog2 y - 52) (- 1074) = - 1074" by simp
  have "0 < y / 2 powi (- 1074)" "y / 2 powi (- 1074) < 1"
    using pos lt by (simp_all add: y_def divide_less_eq)
  from roundEven_unit [OF this]
  have "rnd y = 0 \<or> rnd y = 2 powi (- 1074)"
    using pos by (auto simp: rnd_def Let_def e)
  moreover from assms have "rnd y = y"
    by (simp add: isDouble_def y_def rnd_minus)
  ultimately show False using pos lt by (auto simp: y_def)
qed

lemma rnd_neg_le:
  assumes "rnd x < 0"
  shows "rnd x \<le> - MIN_VALUE"
proof -
  from assms have x0: "x \<noteq> 0" by (auto simp: rnd_def)
  define e where "e = max (flog2 \<bar>x\<bar> - 52) (- 1074)"
  define m where "m = roundEven (\<bar>x\<bar> / 2 powi e)"
  have r: "rnd x = sgn x * (of_int m * 2 powi e)"
    using x0 by (simp add: rnd_def Let_def e_def m_def)
  have q: "(0::rat) < 2 powi e" by simp
  have m0: "0 \<le> m"
    unfolding m_def using roundEven_ge [of 0 "\<bar>x\<bar> / 2 powi e"] by simp
  then have nn: "(0::rat) \<le> of_int m * 2 powi e"
    using q by (simp add: zero_le_mult_iff)
  have neg: "x < 0"
  proof (rule ccontr)
    assume "\<not> x < 0"
    with x0 have "0 < x" by simp
    then have "rnd x = of_int m * 2 powi e" by (simp add: r)
    with nn assms show False by simp
  qed
  have m1: "1 \<le> m"
  proof (rule ccontr)
    assume "\<not> 1 \<le> m"
    with m0 have "m = 0" by simp
    then have "rnd x = 0" by (simp add: r)
    with assms show False by simp
  qed
  have "(2::rat) powi (- 1074) \<le> 2 powi e"
    by (rule power_int_increasing) (simp_all add: e_def)
  also have "\<dots> = 1 * 2 powi e" by simp
  also have "\<dots> \<le> of_int m * 2 powi e"
    by (rule mult_right_mono) (use m1 q in simp_all)
  finally show ?thesis using neg r by (simp add: sgn_if MIN_VALUE_def)
qed

subsection \<open>Totals\<close>

lemma foldl_fadd_exact:
  "exactRun s as \<Longrightarrow> foldl fadd s as = s + sum_list as"
  by (induction as arbitrary: s) (simp_all add: fadd_def isDouble_def add.assoc)

lemma wholeRun_exact:
  "wholeRun s ns \<Longrightarrow> exactRun (of_int s) (map of_int ns)"
proof (induction ns arbitrary: s)
  case Nil
  then show ?case by simp
next
  case (Cons n ns)
  from Cons.prems have b: "\<bar>s + n\<bar> < 2 ^ 53" and w: "wholeRun (s + n) ns"
    by simp_all
  from b have "isDouble (of_int (s + n))" by (rule isDouble_of_int)
  moreover from Cons.IH [OF w] have "exactRun (of_int (s + n)) (map of_int ns)" .
  ultimately show ?case by simp
qed

lemma sum_list_of_int: "sum_list (map of_int ns) = (of_int (sum_list ns) :: rat)"
  by (induction ns) simp_all

lemma foldl_amount:
  "foldl (\<lambda>sum it. fadd sum (amount it)) s xs = foldl fadd s (map amount xs)"
  by (simp add: foldl_map)

lemma walkInTotals_eq:
  "walkInTotals (map processItem its) pct = snd (calculateTotals its pct)"
  by (simp add: walkInTotals_def calculateTotals_def Let_def)

text \<open>
  C3 (as amended). Invoice creation computes the totals in double arithmetic: the
  subtotal is the left-to-right sum of the stored item amounts from 0, every addition
  rounded to the nearest double; gstAmount is subtotal * percentage, rounded, divided by
  100, rounded; totalAmount is the rounded sum of subtotal and gstAmount; the walk-in
  controllers compute the same three values from their prepared items. Each value equals
  the exact one whenever the exact results of its operations are doubles; in particular
  the subtotal is the exact sum when the amounts are whole numbers whose partial sums
  stay below \<open>2 ^ 53\<close> in absolute value.
\<close>

theorem totals_in_double_arithmetic:
  assumes c: "calculateTotals its pct = (processedItems, sub, gstAmt, totalAmt)"
  shows "processedItems = map processItem its
    \<and> sub = foldl fadd 0 (map amount processedItems)
    \<and> gstAmt = fdiv (fmul sub pct) 100
    \<and> totalAmt = fadd sub gstAmt
    \<and> walkInTotals processedItems pct = (sub, gstAmt, totalAmt)
    \<and> (exactRun 0 (map amount processedItems) \<longrightarrow> sub = sum_list (map amount processedItems))
    \<and> (isDouble (sub * pct) \<and> isDouble (sub * pct / 100) \<longrightarrow> gstAmt = sub * pct / 100)
    \<and> (isDouble (sub + gstAmt) \<longrightarrow> totalAmt = sub + gstAmt)
    \<and> (map amount processedItems = map of_int ns \<and> wholeRun 0 ns \<longrightarrow>
          sub = of_int (sum_list ns))"
proof -
  from c have p: "processedItems = map processItem its"
    and s: "sub = foldl fadd 0 (map amount processedItems)"
    and g: "gstAmt = fdiv (fmul sub pct) 100"
    and t: "totalAmt = fadd sub gstAmt"
    by (auto simp: calculateTotals_def Let_def foldl_amount)
  have w: "walkInTotals processedItems pct = (sub, gstAmt, totalAmt)"
    using c by (simp add: p walkInTotals_eq)
  have e1: "exactRun 0 (map amount processedItems) \<longrightarrow> sub = sum_list (map amount processedItems)"
    using foldl_fadd_exact [of 0 "map amount processedItems"] by (simp add: s)
  have e2: "isDouble (sub * pct) \<and> isDouble (sub * pct / 100) \<longrightarrow> gstAmt = sub * pct / 100"
    by (simp add: g fdiv_def fmul_def isDouble_def)
  have e3: "isDouble (sub + gstAmt) \<longrightarrow> totalAmt = sub + gstAmt"
    by (simp add: t fadd_def isDouble_def)
  have e4: "map amount processedItems = map of_int ns \<and> wholeRun 0 ns \<longrightarrow>
          sub = of_int (sum_list ns)"
  proof
    assume h: "map amount processedItems = map of_int ns \<and> wholeRun 0 ns"
    then have "exactRun 0 (map amount processedItems)"
      using wholeRun_exact [of 0 ns] by simp
    with e1 h show "sub = of_int (sum_list ns)"
      by (simp add: sum_list_of_int)
  qed
  from p s g t w e1 e2 e3 e4 show ?thesis by blast
qed

text \<open>
  The theorem at the two items of the manual invoice (amounts 1000 and 1000) at 18
  percent: 2000, 360 and 2360, all exact.
\<close>

theorem totals_in_double_arithmetic_witness:
  "calculateTotals (the (r_items scenarioReq)) 18 = (items scenarioInvoice, 2000, 360, 2360)
   \<and> map amount (items scenarioInvoice) = map of_int [1000, 1000]
   \<and> wholeRun 0 [1000, 1000]
   \<and> exactRun 0 (map amount (items scenarioInvoice))
   \<and> isDouble (2000 * 18) \<and> isDouble (2000 * 18 / 100) \<and> isDouble (2000 + 360)
   \<and> walkInTotals (items scenarioInvoice) 18 = (2000, 360, 2360)
   \<and> (2000 :: rat) = of_int (sum_list [1000, 1000])
   \<and> (360 :: rat) = 2000 * 18 / 100"
proof -
  have c: "calculateTotals (the (r_items scenarioReq)) 18 = (items scenarioInvoice, 2000, 360, 2360)"
    by code_simp
  have a: "map amount (items scenarioInvoice) = map of_int [1000, 1000]"
    by (simp add: scenarioInvoice_def)
  have w: "wholeRun 0 [1000, 1000]" by simp
  have x: "exactRun 0 (map amount (items scenarioInvoice))"
    unfolding a using wholeRun_exact [OF w] by simp
  have d: "isDouble (2000 * 18)" "isDouble (2000 * 18 / 100)" "isDouble (2000 + 360)"
    by code_simp+
  note t = totals_in_double_arithmetic [OF c, of "[1000, 1000]"]
  from t have w2: "walkInTotals (items scenarioInvoice) 18 = (2000, 360, 2360)" by blast
  from t a w have s1: "(2000 :: rat) = of_int (sum_list [1000, 1000])" by blast
  from t d have g1: "(360 :: rat) = 2000 * 18 / 100" by blast
  from c a w x d w2 s1 g1 show ?thesis by blast
qed

text \<open>
  C3 as stated fails: for two items of amounts 0.1 and 0.2 at 18 percent the subtotal is
  0.30000000000000004, which is not the sum of the two stored amounts, gstAmount is
  0.054000000000000006, which is not subtotal * 18 / 100, and totalAmount is
  0.35400000000000004, which is not subtotal + gstAmount.
\<close>

theorem totals_drift_counterexample:
  "isDouble (3602879701896397 / 36028797018963968)
   \<and> isDouble (3602879701896397 / 18014398509481984)
   \<and> calculateTotals [tenthItem, fifthItem] 18
      = ([\<lparr>description = ''Swab'', quantity = 1, unitPrice = 3602879701896397 / 36028797018963968,
            amount = 3602879701896397 / 36028797018963968, hsn = None, gstRate = 0\<rparr>,
          \<lparr>description = ''Gauze'', quantity = 1, unitPrice = 3602879701896397 / 18014398509481984,
            amount = 3602879701896397 / 18014398509481984, hsn = None, gstRate = 0\<rparr>],
         1351079888211149 / 4503599627370496,
         3891110078048109 / 72057594037927936,
         6377097072356623 / 18014398509481984)
   \<and> (1351079888211149 / 4503599627370496 :: rat)
        \<noteq> 3602879701896397 / 36028797018963968 + 3602879701896397 / 18014398509481984
   \<and> (3891110078048109 / 72057594037927936 :: rat)
        \<noteq> 1351079888211149 / 4503599627370496 * 18 / 100
   \<and> (6377097072356623 / 18014398509481984 :: rat)
        \<noteq> 1351079888211149 / 4503599627370496 + 3891110078048109 / 72057594037927936"
  by code_simp

subsection \<open>Failures of invoice creation\<close>

text \<open>
  A sum of amounts that are 0 or negative doubles stays 0 until the first negative
  amount and is negative from then on: no rounding step brings it back to 0.
\<close>

lemma fadd_nonpos_step:
  assumes "s = 0 \<or> s \<le> - MIN_VALUE" and "a = 0 \<or> a \<le> - MIN_VALUE"
  shows "(fadd s a = 0 \<and> s = 0 \<and> a = 0) \<or> fadd s a \<le> - MIN_VALUE"
proof (cases "s = 0 \<and> a = 0")
  case True
  then show ?thesis by (simp add: fadd_def rnd_def)
next
  case False
  have q: "0 < MIN_VALUE" by (rule MIN_VALUE_pos)
  from False assms q have "s + a \<le> - MIN_VALUE" by auto
  then have "rnd (s + a) < 0" by (rule rnd_neg)
  then have "rnd (s + a) \<le> - MIN_VALUE" by (rule rnd_neg_le)
  then show ?thesis by (simp add: fadd_def)
qed

lemma foldl_fadd_nonpos:
  assumes "s = 0 \<or> s \<le> - MIN_VALUE"
    and "list_all (\<lambda>a. a = 0 \<or> a \<le> - MIN_VALUE) xs"
    and "s \<noteq> 0 \<or> list_ex (\<lambda>a. a \<noteq> 0) xs"
  shows "foldl fadd s xs \<le> - MIN_VALUE"
  using assms
proof (induction xs arbitrary: s)
  case Nil
  then show ?case by auto
next
  case (Cons a xs)
  from Cons.prems have a: "a = 0 \<or> a \<le> - MIN_VALUE"
    and xs: "list_all (\<lambda>a. a = 0 \<or> a \<le> - MIN_VALUE) xs"
    by simp_all
  from fadd_nonpos_step [OF Cons.prems(1) a]
  show ?case
  proof
    assume z: "fadd s a = 0 \<and> s = 0 \<and> a = 0"
    then have z1: "fadd s a = 0 \<or> fadd s a \<le> - MIN_VALUE" by blast
    from z Cons.prems(3) have "list_ex (\<lambda>a. a \<noteq> 0) xs" by simp
    then have z3: "fadd s a \<noteq> 0 \<or> list_ex (\<lambda>a. a \<noteq> 0) xs" by simp
    from Cons.IH [OF z1 xs z3] show ?thesis by simp
  next
    assume n: "fadd s a \<le> - MIN_VALUE"
    then have n1: "fadd s a = 0 \<or> fadd s a \<le> - MIN_VALUE" by simp
    from n MIN_VALUE_pos have "fadd s a \<noteq> 0" by auto
    then have n3: "fadd s a \<noteq> 0 \<or> list_ex (\<lambda>a. a \<noteq> 0) xs" by simp
    from Cons.IH [OF n1 xs n3] show ?thesis by simp
  qed
qed

lemma processed_amount_nonpos:
  assumes "suppliedDouble it" and "amount (processItem it) \<le> 0"
  shows "amount (processItem it) = 0 \<or> amount (processItem it) \<le> - MIN_VALUE"
proof (cases "amount (processItem it) = 0")
  case True
  then show ?thesis by simp
next
  case False
  with assms(2) have neg: "amount (processItem it) < 0" by simp
  show ?thesis
  proof (cases "\<exists>a. ri_amount it = Some a \<and> a \<noteq> 0")
    case True
    then obtain a where a: "ri_amount it = Some a" "a \<noteq> 0" by blast
    then have "amount (processItem it) = a" by (simp add: processItem_def)
    moreover from a assms(1) have "isDouble a" by (simp add: suppliedDouble_def)
    ultimately show ?thesis using neg neg_double_le by simp
  next
    case False
    then have "amount (processItem it) = rnd (ri_quantity it * ri_unitPrice it)"
      by (auto simp: processItem_def fmul_def split: option.splits)
    with neg rnd_neg_le show ?thesis by simp
  qed
qed

lemma suppliesNegative_processed:
  "suppliesNegative it \<Longrightarrow> suppliedDouble it \<and> amount (processItem it) < 0"
  by (auto simp: suppliesNegative_def suppliedDouble_def processItem_def split: option.splits)

lemma invoiceDoc_subtotal:
  "subtotal (invoiceDoc clk u rq bs d1)
     = foldl fadd 0 (map (\<lambda>it. amount (processItem it)) (the (r_items rq)))"
  by (simp add: invoiceDoc_def calculateTotals_def Let_def foldl_map comp_def
           split: prod.splits)

lemma validateInvoice_Some:
  "validateInvoice iv = Some e \<Longrightarrow> \<exists>m. e = ValidationError m"
  by (auto simp: validateInvoice_def split: if_splits)

lemma validateInvoice_subtotal: "subtotal iv < 0 \<Longrightarrow> validateInvoice iv \<noteq> None"
  by (auto simp: validateInvoice_def)

lemma createInvoice_lookups:
  assumes "fieldsPresent rq" and "lookupsSucceed u rq d"
  shows "createInvoice clk u rq d =
    (case saveNew (nowMs clk)
            (invoiceDoc clk u rq (fst (resolveSettings (hospitalId u) (userId u) d))
               (snd (resolveSettings (hospitalId u) (userId u) d)))
            (snd (resolveSettings (hospitalId u) (userId u) d)) of
       Inl e \<Rightarrow> (Next e, snd (resolveSettings (hospitalId u) (userId u) d))
     | Inr (iv', d2) \<Rightarrow> (Sent 201 (BodyInvoice ''Invoice created successfully'' iv'), d2))"
  using assms
  by (auto simp: createInvoice_def fieldsPresent_def lookupsSucceed_def Let_def case_prod_beta
           split: option.splits)

lemma negative_subtotal_rejected:
  assumes fp: "fieldsPresent rq" and ls: "lookupsSucceed u rq d"
    and sd: "list_all suppliedDouble (the (r_items rq))"
    and np: "list_all (\<lambda>it. amount (processItem it) \<le> 0) (the (r_items rq))"
    and ng: "list_ex (\<lambda>it. amount (processItem it) < 0) (the (r_items rq))"
  shows "\<exists>m. fst (createInvoice clk u rq d) = Next (ValidationError m)"
proof -
  define bs where "bs = fst (resolveSettings (hospitalId u) (userId u) d)"
  define d1 where "d1 = snd (resolveSettings (hospitalId u) (userId u) d)"
  define doc where "doc = invoiceDoc clk u rq bs d1"
  define xs where "xs = map (\<lambda>it. amount (processItem it)) (the (r_items rq))"
  have all: "list_all (\<lambda>a. a = 0 \<or> a \<le> - MIN_VALUE) xs"
    using sd np processed_amount_nonpos by (auto simp: xs_def list_all_iff)
  from ng obtain it where "it \<in> set (the (r_items rq))" and "amount (processItem it) < 0"
    unfolding list_ex_iff by blast
  then have "amount (processItem it) \<in> set xs" and "amount (processItem it) \<noteq> 0"
    by (simp_all add: xs_def)
  then have ex: "list_ex (\<lambda>a. a \<noteq> 0) xs"
    unfolding list_ex_iff by blast
  have "foldl fadd 0 xs \<le> - MIN_VALUE"
    by (rule foldl_fadd_nonpos) (use all ex in simp_all)
  moreover have "0 < MIN_VALUE" by (rule MIN_VALUE_pos)
  ultimately have "subtotal doc < 0"
    unfolding doc_def invoiceDoc_subtotal xs_def [symmetric] by linarith
  then have "validateInvoice doc \<noteq> None" by (rule validateInvoice_subtotal)
  then obtain m where "validateInvoice doc = Some (ValidationError m)"
    using validateInvoice_Some by fastforce
  then have "saveNew (nowMs clk) doc d1 = Inl (ValidationError m)"
    by (simp add: saveNew_def)
  with fp ls show ?thesis
    by (simp add: createInvoice_lookups bs_def d1_def doc_def)
qed

text \<open>
  C7 (as amended). Invoice creation fails with a 404 not-found error and leaves the
  store unchanged when the referenced patient, doctor or hospital does not exist; it
  fails with a 400 validation error and no write when the item list is missing or
  empty; it fails with a schema validation error when every item supplies a negative
  amount, and more generally when the amounts to be stored (a supplied amount other
  than 0, else quantity * unitPrice) are all \<le> 0 and at least one is negative, the
  supplied amounts being doubles; and whenever it fails, no invoice is persisted.
\<close>

theorem createInvoice_failures:
  "(r_items rq = None \<or> r_items rq = Some [] \<longrightarrow>
      (\<exists>m. createInvoice clk u rq d = (Next (AppError m 400), d)))
   \<and> (fieldsPresent rq \<and> \<not> lookupsSucceed u rq d \<longrightarrow>
      (\<exists>m. createInvoice clk u rq d = (Next (AppError m 404), d)))
   \<and> (fieldsPresent rq \<and> lookupsSucceed u rq d
        \<and> list_all suppliesNegative (the (r_items rq)) \<longrightarrow>
      (\<exists>m. fst (createInvoice clk u rq d) = Next (ValidationError m)))
   \<and> (fieldsPresent rq \<and> lookupsSucceed u rq d
        \<and> list_all suppliedDouble (the (r_items rq))
        \<and> list_all (\<lambda>it. amount (processItem it) \<le> 0) (the (r_items rq))
        \<and> list_ex (\<lambda>it. amount (processItem it) < 0) (the (r_items rq)) \<longrightarrow>
      (\<exists>m. fst (createInvoice clk u rq d) = Next (ValidationError m)))
   \<and> ((\<exists>e. fst (createInvoice clk u rq d) = Next e) \<longrightarrow>
      invoices (snd (createInvoice clk u rq d)) = invoices d)"
proof -
  have a: "r_items rq = None \<or> r_items rq = Some [] \<longrightarrow>
      (\<exists>m. createInvoice clk u rq d = (Next (AppError m 400), d))"
    by (auto simp: createInvoice_def)
  have b: "fieldsPresent rq \<and> \<not> lookupsSucceed u rq d \<longrightarrow>
      (\<exists>m. createInvoice clk u rq d = (Next (AppError m 404), d))"
    by (auto simp: createInvoice_def fieldsPresent_def lookupsSucceed_def split: option.splits)
  have c: "fieldsPresent rq \<and> lookupsSucceed u rq d
        \<and> list_all suppliedDouble (the (r_items rq))
        \<and> list_all (\<lambda>it. amount (processItem it) \<le> 0) (the (r_items rq))
        \<and> list_ex (\<lambda>it. amount (processItem it) < 0) (the (r_items rq)) \<longrightarrow>
      (\<exists>m. fst (createInvoice clk u rq d) = Next (ValidationError m))"
    using negative_subtotal_rejected [of rq u d clk] by blast
  have c': "fieldsPresent rq \<and> lookupsSucceed u rq d
        \<and> list_all suppliesNegative (the (r_items rq)) \<longrightarrow>
      (\<exists>m. fst (createInvoice clk u rq d) = Next (ValidationError m))"
  proof
    assume h: "fieldsPresent rq \<and> lookupsSucceed u rq d
        \<and> list_all suppliesNegative (the (r_items rq))"
    then obtain it its where its: "the (r_items rq) = it # its"
      by (cases "the (r_items rq)") (auto simp: fieldsPresent_def)
    from h have sd: "list_all suppliedDouble (the (r_items rq))"
      and ng: "list_all (\<lambda>it. amount (processItem it) < 0) (the (r_items rq))"
      using suppliesNegative_processed by (auto simp: list_all_iff)
    from ng have np: "list_all (\<lambda>it. amount (processItem it) \<le> 0) (the (r_items rq))"
      by (auto simp: list_all_iff)
    from ng its have ex: "list_ex (\<lambda>it. amount (processItem it) < 0) (the (r_items rq))"
      by simp
    from h sd np ex negative_subtotal_rejected [of rq u d clk]
    show "\<exists>m. fst (createInvoice clk u rq d) = Next (ValidationError m)" by blast
  qed
  have e: "(\<exists>e. fst (createInvoice clk u rq d) = Next e) \<longrightarrow>
      invoices (snd (createInvoice clk u rq d)) = invoices d"
    using createInvoice_invoices [of clk u rq d] by auto
  from a b c c' e show ?thesis by blast
qed

text \<open>
  The theorem at a request for patient 99, who does not exist, and at a request whose
  only item supplies the amount -200.
\<close>

theorem createInvoice_failures_witness:
  "fieldsPresent unknownPatientReq \<and> \<not> lookupsSucceed exUser unknownPatientReq exDb
   \<and> createInvoice exClock exUser unknownPatientReq exDb
       = (Next (AppError ''Patient not found'' 404), exDb)
   \<and> fieldsPresent creditNoteReq \<and> lookupsSucceed exUser creditNoteReq exDb
   \<and> list_all suppliesNegative (the (r_items creditNoteReq))
   \<and> createInvoice exClock exUser creditNoteReq exDb
       = (Next (ValidationError ''Subtotal cannot be negative''),
          exDb\<lparr>settings := [defaultSettings 10 7]\<rparr>)
   \<and> invoices (exDb\<lparr>settings := [defaultSettings 10 7]\<rparr>) = invoices exDb"
proof -
  have f: "fieldsPresent unknownPatientReq" "\<not> lookupsSucceed exUser unknownPatientReq exDb"
    "fieldsPresent creditNoteReq" "lookupsSucceed exUser creditNoteReq exDb"
    "list_all suppliesNegative (the (r_items creditNoteReq))"
    by code_simp+
  have h: "createInvoice exClock exUser unknownPatientReq exDb
       = (Next (AppError ''Patient not found'' 404), exDb)"
    by code_simp
  have g: "createInvoice exClock exUser creditNoteReq exDb
       = (Next (ValidationError ''Subtotal cannot be negative''),
          exDb\<lparr>settings := [defaultSettings 10 7]\<rparr>)"
    by code_simp
  from createInvoice_failures [of unknownPatientReq exClock exUser exDb]
       createInvoice_failures [of creditNoteReq exClock exUser exDb] f h g
  show ?thesis by simp
qed

text \<open>
  C7 as stated fails: a request whose only item has amount 0 (every amount \<le> 0) is
  accepted, and its invoice of total 0 is stored in the empty collection.
\<close>

theorem zero_amounts_persisted_counterexample:
  "createInvoice exClock exUser screeningReq exDb
     = (Sent 201 (BodyInvoice ''Invoice created successfully'' screeningInvoice),
        scenarioDb\<lparr>invoices := [screeningInvoice]\<rparr>)
   \<and> map amount (items screeningInvoice) = [0]
   \<and> invoices exDb = []"
  by code_simp

subsection \<open>Consultation invoices\<close>

lemma apptTypeOf_standard: "apptTypeOf appt = ''standard''"
  by (simp add: apptTypeOf_def appointmentType_def)

lemma feeFor_standard: "feeFor fees (apptTypeOf appt) = standard fees"
  unfolding apptTypeOf_standard feeFor_def by code_simp

text \<open>
  Once an invoice that refers to the appointment is stored, a call writes nothing,
  leaves nothing pending and answers 400 with the \<open>_id\<close> of the first such invoice.
\<close>

lemma consultation_conflict:
  assumes "c_appointmentId rq = Some aid"
    and "findOne (\<lambda>a. appt_id a = aid) (appointments d) = Some appt"
    and "findOne (\<lambda>i. appointment i = Some aid) (invoices d) = Some iv"
  shows "generateConsultationInvoice clk u rq d
     = (Sent 400 (BodyConflict ''Invoice already exists for this appointment'' (inv_id iv)),
        d, None)"
  using assms by (simp add: generateConsultationInvoice_def)

text \<open>
  While no such invoice is stored, a call for an appointment whose patient and doctor
  exist answers 201 and leaves a creation pending, whatever becomes of that creation.
\<close>

lemma consultation_pending:
  assumes "c_appointmentId rq = Some aid"
    and "findOne (\<lambda>a. appt_id a = aid) (appointments d) = Some appt"
    and "findOne (\<lambda>i. appointment i = Some aid) (invoices d) = None"
    and "appt_doctor appt = Some doc" and "appt_patient appt = Some pid"
  shows "generateConsultationInvoice clk u rq d
     = (Sent 201 BodyUndefined, snd (resolveSettings (hospitalId u) (userId u) d),
        Some \<lparr>pend_user = u,
               pend_body = consultationInvoiceData
                 (fst (resolveSettings (hospitalId u) (userId u) d)) appt doc pid aid rq\<rparr>)"
  using assms by (simp add: generateConsultationInvoice_def Let_def case_prod_beta)

text \<open>
  On the store of one tenant: the call answers 201, its pending creation stores the
  invoice, and a later call answers the conflict with that invoice's \<open>_id\<close>.
\<close>

lemma consultation_run:
  "generateConsultationInvoice exClock exUser consultRq exDb
     = (Sent 201 BodyUndefined, settingsDb, Some consultPending)
   \<and> settlePending exClock consultPending settingsDb = consultDb
   \<and> generateConsultationInvoice marchClock exUser consultRq consultDb
     = (Sent 400 (BodyConflict ''Invoice already exists for this appointment'' 1000),
        consultDb, None)"
  by code_simp

text \<open>
  A second call that arrives while the first creation is still pending is answered 201
  as well, and the two creations store two invoices for the one appointment.
\<close>

lemma consultation_race:
  "generateConsultationInvoice exClock exUser consultRq settingsDb
     = (Sent 201 BodyUndefined, settingsDb, Some consultPending)
   \<and> map appointment
        (invoices (settlePending exClock consultPending
                    (settlePending exClock consultPending settingsDb)))
     = [Some 100, Some 100]
   \<and> map invoiceNumber
        (invoices (settlePending exClock consultPending
                    (settlePending exClock consultPending settingsDb)))
     = [''INV-2602-0001'', ''INV-2602-0002'']"
  by code_simp

text \<open>
  C4, the code at two calls for appointment 100 by a user of hospital 10, which has no
  invoice yet, while hospital 11 holds INV-2602-0001: the first call answers 201, its
  pending creation generates the number INV-2602-0001 again and is refused by the
  unique index, the error goes to a \<open>next\<close> that does nothing, and the second call,
  made after the first creation has ended, answers 201 again; no invoice refers to the
  appointment.
\<close>

theorem consultation_invoice_lost:
  "generateConsultationInvoice exClock exUser consultRq twoTenantDb
     = (Sent 201 BodyUndefined, twoTenantSettingsDb, Some consultPending)
   \<and> createInvoice exClock exUser (pend_body consultPending) twoTenantSettingsDb
     = (Next (DuplicateKey ''invoiceNumber''), twoTenantSettingsDb)
   \<and> settlePending exClock consultPending twoTenantSettingsDb = twoTenantSettingsDb
   \<and> generateConsultationInvoice exClock exUser consultRq twoTenantSettingsDb
     = (Sent 201 BodyUndefined, twoTenantSettingsDb, Some consultPending)
   \<and> map appointment (invoices twoTenantSettingsDb) = [None]"
  by code_simp

text \<open>
  The store at the end of that run: the invoice of hospital 11 is the only one stored,
  and no stored invoice refers to appointment 100.
\<close>

theorem consultation_invoice_lost_witness:
  "invoices (settlePending exClock consultPending twoTenantSettingsDb) = [tenant11Invoice]
   \<and> appointment tenant11Invoice = None
   \<and> findOne (\<lambda>i. appointment i = Some 100)
        (invoices (settlePending exClock consultPending twoTenantSettingsDb)) = None"
proof -
  have s: "invoices twoTenantSettingsDb = [tenant11Invoice]"
    and a: "appointment tenant11Invoice = None"
    by (simp_all add: twoTenantSettingsDb_def twoTenantDb_def tenant11Invoice_def
          scenarioInvoice_def)
  from consultation_invoice_lost s a show ?thesis
    by (simp add: findOne_def)
qed

subsection \<open>Statistics\<close>

text \<open>
  What the aggregation pipeline computes once it runs: the summary is the count and the
  three sums over the invoices of the hospital whose invoiceDate lies in the range, and
  it is all zeros when there is none.
\<close>

lemma buildStatistics_summary:
  "summary (buildStatistics period r xs) = accumulate xs"
  by (cases xs) (simp_all add: buildStatistics_def groupAll_def accumulate_def zeroSummary_def)

lemma matchStage_set:
  "set (matchStage hid r invs) =
    {i \<in> set invs. hospital i = Some hid \<and> range_start r \<le> invoiceDate i
                      \<and> invoiceDate i \<le> range_end r}"
  by (auto simp: matchStage_def)

lemma pipeline_summary:
  "summary (buildStatistics period r (matchStage hid r invs)) =
    \<lparr>totalInvoices = length (matchStage hid r invs),
     sum_totalAmount = sum_list (map totalAmount (matchStage hid r invs)),
     sum_paidAmount = sum_list (map paidAmount (matchStage hid r invs)),
     pendingAmount = sum_list (map balanceDue (matchStage hid r invs))\<rparr>"
  by (simp add: buildStatistics_summary accumulate_def)

lemma pipeline_summary_empty:
  "matchStage hid r invs = [] \<Longrightarrow>
     summary (buildStatistics period r (matchStage hid r invs)) = zeroSummary"
  by (simp add: buildStatistics_summary accumulate_def zeroSummary_def)

text \<open>
  C8, the code at a request for this month's statistics of hospital 10, whose store
  holds one invoice dated in the range: the handler ends in the ReferenceError and
  reports no summary.
\<close>

theorem statistics_reference_error:
  "getBillingStatistics exRanges exUser (Some ''thisMonth'') scenarioDb
     = Next (ReferenceError ''mongoose is not defined'')
   \<and> matchStage (hospitalId exUser) (thisMonth exRanges) (invoices scenarioDb) = [scenarioInvoice]"
  by code_simp

end
